theory Spec2Isabelle
  imports Complex_Main
begin

section \<open>Data model of depth\_deblur.cpp\<close>

text \<open>
  A single-channel \<^verbatim>\<open>CV_32F\<close> matrix (\<^verbatim>\<open>cv::Mat\<close>) is a list of rows. The source
  computes in \<^verbatim>\<open>float\<close>; the model computes in the reals (and, for the spectra, in
  the complex numbers), so rounding, infinities and NaN are outside it. Where the
  source divides by zero and goes on with NaN, the text at the definition says so.
  The matrix without rows or columns (\<^verbatim>\<open>Mat::empty()\<close>) is \<open>[]\<close>. A mask is a
  \<^verbatim>\<open>CV_8U\<close> matrix of zeros and ones.
\<close>

type_synonym mat = "real list list"

type_synonym cmat = "complex list list"

type_synonym maskT = "nat list list"

datatype view = LEFT | RIGHT

datatype deconvAlgo = FFT | IRLS

text \<open>
  What the source throws: a \<^verbatim>\<open>runtime_error\<close> with its message, or the
  \<^verbatim>\<open>cv::Exception\<close> of a failed OpenCV assertion.
\<close>

datatype error = RuntimeError string | CvException

definition nrows :: "'a list list \<Rightarrow> nat" where
  "nrows m = length m"

definition ncols :: "'a list list \<Rightarrow> nat" where
  "ncols m = (case m of [] \<Rightarrow> 0 | r # rs \<Rightarrow> length r)"

text \<open>
  A variable of type \<^verbatim>\<open>cv::Mat\<close> is a header that refers to a block of pixels, and
  several headers may refer to one block: the assignment \<^verbatim>\<open>a = b\<close> makes \<open>a\<close> refer
  to the block of \<open>b\<close>, and \<^verbatim>\<open>src.copyTo(dst)\<close> writes into the block of \<open>dst\<close> when
  it has the size of \<open>src\<close> already, and gives \<open>dst\<close> a new block otherwise. The
  kernels of the tree are assigned and copied in both ways, so the \<^verbatim>\<open>psf\<close> of a node
  is a header: \<open>None\<close> for the empty matrix, \<open>Some a\<close> for the block at address \<open>a\<close>
  of the object's \<open>pixels\<close> (below). Every other matrix of the file has one owner
  and is a value.
\<close>

type_synonym matRef = "nat option"

text \<open>
  A node of the region tree (\<^verbatim>\<open>region_tree.hpp\<close> declares it; the fields are the
  ones this file reads and writes): \<^verbatim>\<open>parent\<close>, \<^verbatim>\<open>children\<close> (\<^verbatim>\<open>(-1,-1)\<close>
  for a leaf), \<^verbatim>\<open>psf\<close> and \<^verbatim>\<open>entropy\<close>.
\<close>

record RegionTreeNode =
  parent :: int
  children :: "int \<times> int"
  psf :: matRef
  entropy :: real

text \<open>
  The region tree as this file uses it: \<^verbatim>\<open>regionTree[id]\<close> is \<open>nodes rt id\<close>,
  \<^verbatim>\<open>regionTree.getMask(id, mask, view)\<close> is \<open>getMask rt id view\<close>,
  \<^verbatim>\<open>regionTree.getMasks(id, masks)\<close> is \<open>getMasks rt id\<close> (the array of the two views),
  \<^verbatim>\<open>regionTree.getLevelPeers(id)\<close> is \<open>getLevelPeers rt id\<close>. The class itself is
  declared outside this file, so its accessors are fields of the record.
\<close>

record RegionTree =
  nodes :: "int \<Rightarrow> RegionTreeNode"
  topLevelNodeIds :: "int list"
  getMask :: "int \<Rightarrow> view \<Rightarrow> maskT"
  getMasks :: "int \<Rightarrow> view \<Rightarrow> maskT"
  getLevelPeers :: "int \<Rightarrow> int list"

section \<open>Reliability of a PSF\<close>

text \<open>
  \<^verbatim>\<open>isReliablePSF\<close>: the loop adds the entropies of the level peers, the mean is the
  sum over \<^verbatim>\<open>peers.size()\<close>, the threshold is \<^verbatim>\<open>0.2 * mean\<close>. With no peers the
  source divides \<^verbatim>\<open>0.0f\<close> by zero: the mean is NaN, the comparison is false and the
  function returns false.
\<close>

fun sumEntropy :: "RegionTree \<Rightarrow> int list \<Rightarrow> real \<Rightarrow> real" where
  "sumEntropy rt [] s = s"
| "sumEntropy rt (nid # peers) s = sumEntropy rt peers (s + entropy (nodes rt nid))"

definition isReliablePSF :: "RegionTree \<Rightarrow> int \<Rightarrow> bool" where
  "isReliablePSF rt n =
     (let peers = getLevelPeers rt n;
          s = sumEntropy rt peers 0
      in if peers = [] then False
         else (let mean = s / real (length peers);
                   threshold = 0.2 * mean
               in entropy (nodes rt n) - mean < threshold))"

text \<open>The mean of the spec: the arithmetic mean of the peers' entropies.\<close>

definition levelMean :: "RegionTree \<Rightarrow> int \<Rightarrow> real" where
  "levelMean rt n =
     (\<Sum>nid \<leftarrow> getLevelPeers rt n. entropy (nodes rt nid)) / real (length (getLevelPeers rt n))"

text \<open>
  The example of the spec: four level peers \<open>0, 1, 2, 3\<close> with entropies
  \<open>1, 1, 1, 5\<close>.
\<close>

definition exampleNode :: "real \<Rightarrow> RegionTreeNode" where
  "exampleNode e = \<lparr> parent = 4, children = (-1, -1), psf = None, entropy = e \<rparr>"

definition exampleTree :: RegionTree where
  "exampleTree =
     \<lparr> nodes = (\<lambda>i. exampleNode (if i = 3 then 5 else 1)),
       topLevelNodeIds = [4],
       getMask = (\<lambda>i v. [[1]]),
       getMasks = (\<lambda>i v. [[1]]),
       getLevelPeers = (\<lambda>i. [0, 1, 2, 3]) \<rparr>"

section \<open>External collaborators\<close>

text \<open>
  The functions this file calls and does not define: OpenCV's and those of the other
  translation units (\<^verbatim>\<open>deconvolution.hpp\<close>, \<^verbatim>\<open>coherence_filter.hpp\<close>,
  \<^verbatim>\<open>edge_map.hpp\<close>, \<^verbatim>\<open>utils.hpp\<close>). They are parameters of the model, with their
  output arguments as results. \<open>dft\<close> is the forward transform to the two-channel
  (real, imaginary) matrix the source indexes with \<^verbatim>\<open>at<Vec2f>\<close>; \<open>idft\<close> is
  \<^verbatim>\<open>dft\<close> with \<^verbatim>\<open>DFT_INVERSE | DFT_REAL_OUTPUT\<close>.
\<close>

record Ext =
  deconvolveFFT :: "mat \<Rightarrow> mat \<Rightarrow> mat"
  deconvolveIRLS :: "mat \<Rightarrow> mat \<Rightarrow> maskT \<Rightarrow> mat"
  GaussianBlur :: "mat \<Rightarrow> mat"
  coherenceFilter :: "mat \<Rightarrow> mat"
  Sobel :: "mat \<Rightarrow> nat \<Rightarrow> nat \<Rightarrow> mat"
  normedGradients :: "mat \<times> mat \<Rightarrow> mat"
  crossCorrelation :: "mat \<Rightarrow> mat \<Rightarrow> maskT \<Rightarrow> real"
  computeSalientEdgeMap :: "mat \<Rightarrow> int \<Rightarrow> maskT \<Rightarrow> mat \<times> mat"
  dft :: "mat \<Rightarrow> cmat"
  idft :: "cmat \<Rightarrow> mat"

text \<open>
  A call of one of the two deconvolution solvers, with its arguments: the blurred
  image, the kernel and, for the iterative solver only, the region mask.
\<close>

datatype call = DeconvolveFFT mat mat | DeconvolveIRLS mat mat maskT

fun runCall :: "Ext \<Rightarrow> call \<Rightarrow> mat" where
  "runCall ext (DeconvolveFFT src kern) = deconvolveFFT ext src kern"
| "runCall ext (DeconvolveIRLS src kern msk) = deconvolveIRLS ext src kern msk"

fun callMask :: "call \<Rightarrow> maskT option" where
  "callMask (DeconvolveFFT src kern) = None"
| "callMask (DeconvolveIRLS src kern msk) = Some msk"

fun callKernel :: "call \<Rightarrow> mat" where
  "callKernel (DeconvolveFFT src kern) = kern"
| "callKernel (DeconvolveIRLS src kern msk) = kern"

section \<open>The state of a DepthDeblur object\<close>

text \<open>
  The members the modelled functions read and write. \<open>regionDeconv\<close> is the
  \<^verbatim>\<open>vector<Mat>\<close>, \<open>remainingNodes\<close> the queue (front first), \<open>regionStack\<close> the stack
  (top first). Three fields are not members. \<open>pixels\<close> is the memory of the kernels:
  the block of pixels at each address; \<open>nextBlock\<close> is the address the next new
  block gets (blocks are not given back: a header in a local vector may still refer
  to a block that no node refers to). \<open>calls\<close> records, oldest first, the solver
  calls made so far, so that a statement can say that a call was or was not made.
\<close>

record DepthDeblur =
  psfWidth :: int
  layers :: int
  images :: "view \<Rightarrow> mat"
  floatImages :: "view \<Rightarrow> mat"
  disparityMaps :: "view \<Rightarrow> mat"
  gradsLeft :: "mat \<times> mat"
  gradsRight :: "mat \<times> mat"
  deconvAlgoPSFSelection :: deconvAlgo
  regionTree :: RegionTree
  regionDeconv :: "mat list"
  remainingNodes :: "int list"
  regionStack :: "int list"
  visitedLeafs :: int
  pixels :: "nat \<Rightarrow> mat"
  nextBlock :: nat
  calls :: "call list"

text \<open>
  The pixels a header refers to, and the kernel of a node: what a read of
  \<^verbatim>\<open>regionTree[id].psf\<close> sees.
\<close>

definition deref :: "DepthDeblur \<Rightarrow> matRef \<Rightarrow> mat" where
  "deref dd r = (case r of None \<Rightarrow> [] | Some a \<Rightarrow> pixels dd a)"

definition psfValue :: "DepthDeblur \<Rightarrow> int \<Rightarrow> mat" where
  "psfValue dd nid = deref dd (psf (nodes (regionTree dd) nid))"

text \<open>
  \<^verbatim>\<open>regionTree[cid].psf = r\<close>: the header of the node refers to what \<open>r\<close> refers
  to. No pixel is copied.
\<close>

definition assignPsf :: "int \<Rightarrow> matRef \<Rightarrow> DepthDeblur \<Rightarrow> DepthDeblur" where
  "assignPsf cid r dd =
     dd\<lparr>regionTree := (regionTree dd)\<lparr>nodes := (nodes (regionTree dd))(cid := (nodes (regionTree dd) cid)\<lparr>psf := r\<rparr>)\<rparr>\<rparr>"

text \<open>
  \<^verbatim>\<open>v.copyTo(regionTree[cid].psf)\<close>. An empty \<open>v\<close> releases the header. Otherwise
  \<^verbatim>\<open>copyTo\<close> calls \<^verbatim>\<open>create\<close> with the size and type of \<open>v\<close> (all kernels are
  \<^verbatim>\<open>CV_32F\<close>): a header of this size keeps its block, and the pixels are written
  into it, whoever else refers to the block; any other header gets a new block.
\<close>

definition freshPsf :: "int \<Rightarrow> mat \<Rightarrow> DepthDeblur \<Rightarrow> DepthDeblur" where
  "freshPsf cid v dd =
     assignPsf cid (Some (nextBlock dd))
       (dd\<lparr>pixels := (pixels dd)(nextBlock dd := v), nextBlock := nextBlock dd + 1\<rparr>)"

definition copyToPsf :: "int \<Rightarrow> mat \<Rightarrow> DepthDeblur \<Rightarrow> DepthDeblur" where
  "copyToPsf cid v dd =
     (if v = [] then assignPsf cid None dd
      else case psf (nodes (regionTree dd) cid) of
             None \<Rightarrow> freshPsf cid v dd
           | Some a \<Rightarrow>
               if nrows (pixels dd a) = nrows v \<and> ncols (pixels dd a) = ncols v
               then dd\<lparr>pixels := (pixels dd)(a := v)\<rparr>
               else freshPsf cid v dd)"

text \<open>
  The header of node \<open>i\<close> is empty or refers to a block that was given out: a new
  block is never the block of such a node.
\<close>

definition allocated :: "DepthDeblur \<Rightarrow> int \<Rightarrow> bool" where
  "allocated dd i = (\<forall>a. psf (nodes (regionTree dd) i) = Some a \<longrightarrow> a < nextBlock dd)"

text \<open>
  \<^verbatim>\<open>regionDeconv[i] = v\<close>. The source does not check the index; outside the vector
  its behaviour is undefined, and the model leaves the vector as it is.
\<close>

definition vecSet :: "mat list \<Rightarrow> int \<Rightarrow> mat \<Rightarrow> mat list" where
  "vecSet xs i v = (if 0 \<le> i \<and> i < int (length xs) then xs[nat i := v] else xs)"

text \<open>\<^verbatim>\<open>vector::resize(n)\<close>: the first \<open>n\<close> elements stay, new ones are empty matrices.\<close>

definition vecResize :: "mat list \<Rightarrow> int \<Rightarrow> mat list" where
  "vecResize xs n = take (nat n) xs @ replicate (nat n - length xs) []"

section \<open>Element-wise matrix operations of OpenCV\<close>

text \<open>
  \<^verbatim>\<open>threshold(src, dst, t, -1, THRESH_TOZERO)\<close> keeps a value above \<open>t\<close> and zeroes
  the others; \<^verbatim>\<open>THRESH_TRUNC\<close> replaces a value above \<open>t\<close> by \<open>t\<close>.
\<close>

definition thresholdToZero :: "real \<Rightarrow> mat \<Rightarrow> mat" where
  "thresholdToZero t m = map (map (\<lambda>v. if v > t then v else 0)) m"

definition thresholdTrunc :: "real \<Rightarrow> mat \<Rightarrow> mat" where
  "thresholdTrunc t m = map (map (\<lambda>v. if v > t then t else v)) m"

definition scaleMat :: "real \<Rightarrow> mat \<Rightarrow> mat" where
  "scaleMat a m = map (map (\<lambda>v. v * a)) m"

text \<open>
  \<^verbatim>\<open>src.copyTo(dst, mask)\<close> into a fresh \<open>dst\<close>: the pixels where the mask is non-zero
  are copied, the others are zero.
\<close>

definition copyToMasked :: "mat \<Rightarrow> maskT \<Rightarrow> mat" where
  "copyToMasked src msk = map (\<lambda>(row, mrow). map (\<lambda>(v, b). if b \<noteq> 0 then v else 0) (zip row mrow)) (zip src msk)"

text \<open>The maximum that \<^verbatim>\<open>minMaxLoc\<close> reports.\<close>

definition maxLoc :: "mat \<Rightarrow> real" where
  "maxLoc m = (case concat m of [] \<Rightarrow> 0 | v # vs \<Rightarrow> fold max vs v)"

section \<open>Scoring a candidate kernel\<close>

text \<open>
  \<^verbatim>\<open>gradientCorrelation\<close>: Sobel gradients of both images, their magnitudes divided by
  the maximum, cut to the mask, and the cross correlation of the two cuts. (A flat
  image has maximum 0; the source then divides by zero and goes on with NaN, which
  the model does not follow.)
\<close>

definition gradientCorrelation :: "Ext \<Rightarrow> mat \<Rightarrow> mat \<Rightarrow> maskT \<Rightarrow> real" where
  "gradientCorrelation ext image1 image2 msk =
     (let tmpGrads1 = (Sobel ext image1 1 0, Sobel ext image1 0 1);
          tmpGrads2 = (Sobel ext image2 1 0, Sobel ext image2 0 1);
          g1 = normedGradients ext tmpGrads1;
          g2 = normedGradients ext tmpGrads2;
          gradients1 = scaleMat (1 / maxLoc g1) g1;
          gradients2 = scaleMat (1 / maxLoc g2) g2;
          X = copyToMasked gradients1 msk;
          Y = copyToMasked gradients2 msk
      in crossCorrelation ext X Y msk)"

text \<open>
  The solver call of \<^verbatim>\<open>psfSelection\<close> for one candidate of node \<open>nid\<close>: the branch
  on \<^verbatim>\<open>deconvAlgoPSFSelection\<close>.
\<close>

definition psfSelectionCall :: "DepthDeblur \<Rightarrow> int \<Rightarrow> mat \<Rightarrow> call" where
  "psfSelectionCall dd nid candidate =
     (case deconvAlgoPSFSelection dd of
        FFT \<Rightarrow> DeconvolveFFT (floatImages dd LEFT) candidate
      | IRLS \<Rightarrow> DeconvolveIRLS (floatImages dd LEFT) candidate (getMask (regionTree dd) nid LEFT))"

text \<open>
  The body of the loop of \<^verbatim>\<open>psfSelection\<close> up to the energy: the latent image as
  thresholded and scaled, and \<^verbatim>\<open>1 - gradientCorrelation(latent, shockFiltered, mask)\<close>.
\<close>

definition candidateLatent :: "Ext \<Rightarrow> DepthDeblur \<Rightarrow> int \<Rightarrow> mat \<Rightarrow> mat" where
  "candidateLatent ext dd nid candidate =
     scaleMat 255 (thresholdTrunc 1 (thresholdToZero 0 (runCall ext (psfSelectionCall dd nid candidate))))"

definition candidateEnergy :: "Ext \<Rightarrow> DepthDeblur \<Rightarrow> int \<Rightarrow> mat \<Rightarrow> real" where
  "candidateEnergy ext dd nid candidate =
     (let msk = getMask (regionTree dd) nid LEFT;
          latent = candidateLatent ext dd nid candidate;
          smoothed = GaussianBlur ext latent;
          shockFiltered = coherenceFilter ext smoothed
      in 1 - gradientCorrelation ext latent shockFiltered msk)"

section \<open>Candidate selection and PSF selection\<close>

text \<open>
  \<^verbatim>\<open>candidateSelection\<close> appends to the (empty) vector the caller passes.
  \<^verbatim>\<open>push_back\<close> copies the header of a kernel, not its pixels: a candidate refers to
  the block of the node it was taken from.
\<close>

definition candidateSelection :: "DepthDeblur \<Rightarrow> matRef list \<Rightarrow> int \<Rightarrow> int \<Rightarrow> matRef list" where
  "candidateSelection dd candiates nid sid =
     (let rt = regionTree dd;
          c1 = candiates @ [psf (nodes rt nid)];
          pid = parent (nodes rt nid);
          c2 = c1 @ [psf (nodes rt pid)]
      in if isReliablePSF rt sid then c2 @ [psf (nodes rt sid)] else c2)"

text \<open>
  The loop of \<^verbatim>\<open>psfSelection\<close> over the candidates from index \<open>i\<close> on, with the
  running \<^verbatim>\<open>minEnergy\<close> and \<^verbatim>\<open>winner\<close>. A new minimum of a leaf under the iterative
  solver stores its latent image in \<^verbatim>\<open>regionDeconv[id]\<close>.
\<close>

fun psfSelectionLoop ::
  "Ext \<Rightarrow> int \<Rightarrow> mat list \<Rightarrow> nat \<Rightarrow> real \<Rightarrow> nat \<Rightarrow> DepthDeblur \<Rightarrow> real \<times> nat \<times> DepthDeblur" where
  "psfSelectionLoop ext nid [] i minEnergy winner dd = (minEnergy, winner, dd)"
| "psfSelectionLoop ext nid (c # cs) i minEnergy winner dd =
     (let latent = candidateLatent ext dd nid c;
          energy = candidateEnergy ext dd nid c;
          dd1 = dd\<lparr>calls := calls dd @ [psfSelectionCall dd nid c]\<rparr>
      in if energy < minEnergy then
           psfSelectionLoop ext nid cs (i + 1) energy i
             (if fst (children (nodes (regionTree dd1) nid)) = -1 \<and> deconvAlgoPSFSelection dd1 = IRLS
              then dd1\<lparr>regionDeconv := vecSet (regionDeconv dd1) nid latent\<rparr>
              else dd1)
         else psfSelectionLoop ext nid cs (i + 1) minEnergy winner dd1)"

text \<open>
  \<^verbatim>\<open>psfSelection\<close>: \<^verbatim>\<open>minEnergy = 2\<close>, \<^verbatim>\<open>winner = 0\<close>, the loop, and the copy of
  \<^verbatim>\<open>candidates[winner]\<close> into the empty matrix the caller passes, which gets a block
  of its own: the winner is a value. With no candidate the source reads
  \<^verbatim>\<open>candidates[0]\<close> of an empty vector (undefined behaviour): the model returns
  \<open>None\<close>. The function writes no kernel, so \<open>candidates\<close> is the list of the pixels
  that the headers refer to when it is called.
\<close>

definition psfSelectionWinner :: "Ext \<Rightarrow> DepthDeblur \<Rightarrow> mat list \<Rightarrow> int \<Rightarrow> nat" where
  "psfSelectionWinner ext dd candidates nid = fst (snd (psfSelectionLoop ext nid candidates 0 2 0 dd))"

definition psfSelection :: "Ext \<Rightarrow> DepthDeblur \<Rightarrow> mat list \<Rightarrow> int \<Rightarrow> (mat \<times> DepthDeblur) option" where
  "psfSelection ext dd candidates nid =
     (case psfSelectionLoop ext nid candidates 0 2 0 dd of
        (minEnergy, winner, dd') \<Rightarrow>
          if candidates = [] then None else Some (candidates ! winner, dd'))"

text \<open>
  The winner of the loop on the energies alone: what \<^verbatim>\<open>minEnergy\<close> and \<^verbatim>\<open>winner\<close>
  are after the candidates with the energies \<open>es\<close>, the first of index \<open>i\<close>.
\<close>

fun selectLoop :: "real list \<Rightarrow> nat \<Rightarrow> real \<Rightarrow> nat \<Rightarrow> real \<times> nat" where
  "selectLoop [] i minEnergy winner = (minEnergy, winner)"
| "selectLoop (energy # es) i minEnergy winner =
     (if energy < minEnergy then selectLoop es (i + 1) energy i
      else selectLoop es (i + 1) minEnergy winner)"

section \<open>Joint PSF estimation\<close>

text \<open>\<^verbatim>\<open>Mat::zeros(size, CV_32F)\<close> with \<^verbatim>\<open>at<float>(0, 0) = 1\<close>.\<close>

definition unitImpulse :: "nat \<Rightarrow> nat \<Rightarrow> mat" where
  "unitImpulse r c = map (\<lambda>y. map (\<lambda>x. if y = 0 \<and> x = 0 then 1 else 0) [0 ..< c]) [0 ..< r]"

text \<open>
  The kernel entry of one bin, as the loop body computes it from the nine complex
  entries at this position (\<^verbatim>\<open>weight\<close> is \<^verbatim>\<open>complex<float>(1, 0.0)\<close>).
\<close>

definition kernelBin ::
  "complex \<Rightarrow> complex \<Rightarrow> complex \<Rightarrow> complex \<Rightarrow> complex \<Rightarrow> complex \<Rightarrow> complex \<Rightarrow> complex \<Rightarrow> complex \<Rightarrow> complex" where
  "kernelBin xsr ysr xsm ysm xbr ybr xbm ybm d =
     (let weight = Complex 1 0
      in ((cnj xsr * xbr + cnj xsm * xbm) + (cnj ysr * ybr + cnj ysm * ybm)) /
         ((cnj xsr * xsr + cnj ysr * ysr) + (cnj xsm * xsm + cnj ysm * ysm) + weight * cnj d * d))"

text \<open>
  The first part of \<^verbatim>\<open>jointPSFEstimation\<close>: the gradients of the blurred views cut to
  the masks, the eight transforms, the transform of the impulse, and the matrix \<open>K\<close>
  of the size of \<open>xSm\<close>. The left view is \<open>m\<close>, the right view \<open>r\<close>.
\<close>

definition frequencyKernel ::
  "Ext \<Rightarrow> DepthDeblur \<Rightarrow> (view \<Rightarrow> maskT) \<Rightarrow> mat \<times> mat \<Rightarrow> mat \<times> mat \<Rightarrow> cmat" where
  "frequencyKernel ext dd masks salientEdgesLeft salientEdgesRight =
     (let regionGradsLeft = (copyToMasked (fst (gradsLeft dd)) (masks LEFT),
                             copyToMasked (snd (gradsLeft dd)) (masks LEFT));
          regionGradsRight = (copyToMasked (fst (gradsRight dd)) (masks RIGHT),
                              copyToMasked (snd (gradsRight dd)) (masks RIGHT));
          xSm = dft ext (fst salientEdgesLeft);
          ySm = dft ext (snd salientEdgesLeft);
          xSr = dft ext (fst salientEdgesRight);
          ySr = dft ext (snd salientEdgesRight);
          xBm = dft ext (fst regionGradsLeft);
          yBm = dft ext (snd regionGradsLeft);
          xBr = dft ext (fst regionGradsRight);
          yBr = dft ext (snd regionGradsRight);
          delta = dft ext (unitImpulse (nrows xSm) (ncols xSm))
      in map (\<lambda>y. map (\<lambda>x. kernelBin (xSr ! y ! x) (ySr ! y ! x) (xSm ! y ! x) (ySm ! y ! x)
                                     (xBr ! y ! x) (yBr ! y ! x) (xBm ! y ! x) (yBm ! y ! x)
                                     (delta ! y ! x))
                     [0 ..< ncols xSm])
             [0 ..< nrows xSm])"

text \<open>
  The formula of the spec for one bin, in the spec's own grouping: over the views
  \<open>v\<close>, the sum of \<open>conj(Sx v) * Bx v + conj(Sy v) * By v\<close>, divided by the sum of
  \<open>conj(Sx v) * Sx v + conj(Sy v) * Sy v\<close> plus \<open>gamma * conj(D) * D\<close>.
\<close>

definition specKernelBin ::
  "(view \<Rightarrow> complex) \<Rightarrow> (view \<Rightarrow> complex) \<Rightarrow> (view \<Rightarrow> complex) \<Rightarrow> (view \<Rightarrow> complex) \<Rightarrow> complex \<Rightarrow> complex \<Rightarrow> complex" where
  "specKernelBin Sx Sy Bx By gamma D =
     (\<Sum>v \<leftarrow> [LEFT, RIGHT]. cnj (Sx v) * Bx v + cnj (Sy v) * By v) /
     ((\<Sum>v \<leftarrow> [LEFT, RIGHT]. cnj (Sx v) * Sx v + cnj (Sy v) * Sy v) + gamma * cnj D * D)"

text \<open>
  \<^verbatim>\<open>Mat(m, Rect(x, y, w, h))\<close>: OpenCV asserts that the rectangle lies in the matrix;
  a rectangle without rows or columns gives the empty matrix.
\<close>

definition roi :: "mat \<Rightarrow> int \<Rightarrow> int \<Rightarrow> int \<Rightarrow> int \<Rightarrow> error + mat" where
  "roi m x y w h =
     (if 0 \<le> x \<and> 0 \<le> w \<and> x + w \<le> int (ncols m) \<and> 0 \<le> y \<and> 0 \<le> h \<and> y + h \<le> int (nrows m)
      then Inr (if w = 0 \<or> h = 0 then []
                else map (\<lambda>r. take (nat w) (drop (nat x) r)) (take (nat h) (drop (nat y) m)))
      else Inl CvException)"

text \<open>
  \<^verbatim>\<open>hconcat\<close> and \<^verbatim>\<open>vconcat\<close> of two matrices. OpenCV asserts that the operands have
  the same number of rows (columns); with an empty operand the call fails as well
  (OpenCV 2.4 asserts that no operand is empty, later versions fail on the row or
  column count when the other operand is not empty).
\<close>

definition hconcat :: "mat \<Rightarrow> mat \<Rightarrow> error + mat" where
  "hconcat a b =
     (if a = [] \<or> b = [] \<or> nrows a \<noteq> nrows b then Inl CvException
      else Inr (map (\<lambda>(ra, rb). ra @ rb) (zip a b)))"

definition vconcat :: "mat \<Rightarrow> mat \<Rightarrow> error + mat" where
  "vconcat a b =
     (if a = [] \<or> b = [] \<or> ncols a \<noteq> ncols b then Inl CvException
      else Inr (a @ b))"

text \<open>Integer division of C++ (towards zero) by a positive divisor.\<close>

definition cdiv :: "int \<Rightarrow> int \<Rightarrow> int" where
  "cdiv a b = (if 0 \<le> a then a div b else - ((- a) div b))"

text \<open>\<^verbatim>\<open>sum(m)[0]\<close>: the sum of all entries.\<close>

definition sumMat :: "mat \<Rightarrow> real" where
  "sumMat m = sum_list (concat m)"

text \<open>
  The second part of \<^verbatim>\<open>jointPSFEstimation\<close>, from the inverse transform on:
  threshold at zero, the four rectangles, the three concatenations, the cut to
  \<open>psfWidth\<close> by \<open>psfWidth\<close> and the division by the sum. When the sum is zero every
  entry of the cut is zero, the source divides zero by zero and returns a kernel of
  NaN entries; in the model the quotient is the zero kernel, which stands for it.
\<close>

definition swapSlices :: "int \<Rightarrow> mat \<Rightarrow> error + mat" where
  "swapSlices width kern =
     (let x = int (ncols kern);
          y = int (nrows kern);
          hs1 = cdiv (width - 1) 2;
          hs2 = cdiv (width - 1) 2
      in case roi kern 0 0 (x - hs1) (y - hs2) of Inl e \<Rightarrow> Inl e | Inr q0 \<Rightarrow>
         case roi kern (x - hs1) 0 hs1 (y - hs2) of Inl e \<Rightarrow> Inl e | Inr q1 \<Rightarrow>
         case roi kern 0 (y - hs2) (x - hs1) hs2 of Inl e \<Rightarrow> Inl e | Inr q2 \<Rightarrow>
         case roi kern (x - hs1) (y - hs2) hs1 hs2 of Inl e \<Rightarrow> Inl e | Inr q3 \<Rightarrow>
         case hconcat q3 q2 of Inl e \<Rightarrow> Inl e | Inr kernelSwap \<Rightarrow>
         case hconcat q1 q0 of Inl e \<Rightarrow> Inl e | Inr tmp \<Rightarrow>
         vconcat kernelSwap tmp)"

definition kernelFromInverse :: "int \<Rightarrow> mat \<Rightarrow> error + mat" where
  "kernelFromInverse width kern0 =
     (let kern = thresholdToZero 0 kern0
      in case swapSlices width kern of Inl e \<Rightarrow> Inl e | Inr swapped \<Rightarrow>
         case roi swapped 0 0 width width of Inl e \<Rightarrow> Inl e | Inr kernelROI \<Rightarrow>
         Inr (map (map (\<lambda>v. v / sumMat kernelROI)) kernelROI))"

definition jointPSFEstimation ::
  "Ext \<Rightarrow> DepthDeblur \<Rightarrow> (view \<Rightarrow> maskT) \<Rightarrow> mat \<times> mat \<Rightarrow> mat \<times> mat \<Rightarrow> error + mat" where
  "jointPSFEstimation ext dd masks salientEdgesLeft salientEdgesRight =
     kernelFromInverse (psfWidth dd)
       (idft ext (frequencyKernel ext dd masks salientEdgesLeft salientEdgesRight))"

text \<open>
  To state what \<^verbatim>\<open>jointPSFEstimation\<close> returns. A \<^verbatim>\<open>cv::Mat\<close> has rows of one
  length. \<open>recentred width kern i j\<close> reads from the inverse transform \<open>kern\<close> the
  entry that the thresholded and re-centred kernel has at \<open>(i, j)\<close>: negative values
  count as zero, and the pixel \<open>(0, 0)\<close> of \<open>kern\<close> lies at \<open>(hs, hs)\<close>, the rows and
  columns taken cyclically. \<open>croppedSum\<close> is the sum of these entries over the window of
  \<open>width\<close> by \<open>width\<close>.
\<close>

definition isMatrix :: "'a list list \<Rightarrow> bool" where
  "isMatrix m = (\<forall>r \<in> set m. length r = ncols m)"

definition recentred :: "int \<Rightarrow> mat \<Rightarrow> nat \<Rightarrow> nat \<Rightarrow> real" where
  "recentred width kern i j =
     (let hs = nat (cdiv (width - 1) 2)
      in max 0 (kern ! ((nrows kern - hs + i) mod nrows kern) ! ((ncols kern - hs + j) mod ncols kern)))"

definition croppedSum :: "int \<Rightarrow> mat \<Rightarrow> real" where
  "croppedSum width kern = (\<Sum>i < nat width. \<Sum>j < nat width. recentred width kern i j)"

section \<open>The first pass: initial kernels of the children\<close>

text \<open>A call of a solver: its result, and the call recorded.\<close>

definition solve :: "Ext \<Rightarrow> call \<Rightarrow> DepthDeblur \<Rightarrow> mat \<times> DepthDeblur" where
  "solve ext c dd = (runCall ext c, dd\<lparr>calls := calls dd @ [c]\<rparr>)"

text \<open>
  \<^verbatim>\<open>estimateChildPSF(parentPSF, psf, masks, id)\<close> where the output argument \<open>psf\<close>
  is \<^verbatim>\<open>regionTree[cid].psf\<close>: both views deconvolved with the kernel of the parent
  by the solver of the setting, scaled by 255, their salient edge maps, and the joint
  estimation, whose last statements copy the kernel to \<open>psf\<close> and divide it by its
  sum. The result is the object with the kernel written, or the exception. (The
  argument \<^verbatim>\<open>id\<close> only names debug images.)
\<close>

definition estimateChildPSF ::
  "Ext \<Rightarrow> mat \<Rightarrow> int \<Rightarrow> (view \<Rightarrow> maskT) \<Rightarrow> DepthDeblur \<Rightarrow> error + DepthDeblur" where
  "estimateChildPSF ext parentPSF cid masks dd =
     (let (deconvLeft, deconvRight, dd2) =
            (case deconvAlgoPSFSelection dd of
               FFT \<Rightarrow>
                 (let (l, dd1) = solve ext (DeconvolveFFT (floatImages dd LEFT) parentPSF) dd;
                      (r, dd2) = solve ext (DeconvolveFFT (floatImages dd1 RIGHT) parentPSF) dd1
                  in (l, r, dd2))
             | IRLS \<Rightarrow>
                 (let (l, dd1) = solve ext (DeconvolveIRLS (floatImages dd LEFT) parentPSF (masks LEFT)) dd;
                      (r, dd2) = solve ext (DeconvolveIRLS (floatImages dd1 RIGHT) parentPSF (masks RIGHT)) dd1
                  in (l, r, dd2)));
          salientEdgesLeft = computeSalientEdgeMap ext (scaleMat 255 deconvLeft) (psfWidth dd2) (masks LEFT);
          salientEdgesRight = computeSalientEdgeMap ext (scaleMat 255 deconvRight) (psfWidth dd2) (masks RIGHT)
      in case jointPSFEstimation ext dd2 masks salientEdgesLeft salientEdgesRight of
           Inl e \<Rightarrow> Inl e
         | Inr p \<Rightarrow> Inr (copyToPsf cid p dd2))"

text \<open>
  \<^verbatim>\<open>computeEntropy\<close>: minus the sum of \<open>x * log x\<close> over the positive entries.
\<close>

definition computeEntropy :: "mat \<Rightarrow> real" where
  "computeEntropy kern = - fold (\<lambda>x entropy. if x > 0 then entropy + x * ln x else entropy) (concat kern) 0"

text \<open>The assignment to \<^verbatim>\<open>regionTree[cid].entropy\<close>.\<close>

definition setEntropy :: "int \<Rightarrow> real \<Rightarrow> DepthDeblur \<Rightarrow> DepthDeblur" where
  "setEntropy cid v dd =
     dd\<lparr>regionTree := (regionTree dd)\<lparr>nodes := (nodes (regionTree dd))(cid := (nodes (regionTree dd) cid)\<lparr>entropy := v\<rparr>)\<rparr>\<rparr>"

text \<open>\<^verbatim>\<open>sum(mask)[0]\<close> of a mask.\<close>

definition sumMask :: "maskT \<Rightarrow> nat" where
  "sumMask m = sum_list (concat m)"

text \<open>
  The initial kernel of one child \<open>cid\<close> of node \<open>nid\<close> in
  \<^verbatim>\<open>midLevelKernelEstimationNode\<close>: the masks of the child; with both masks non-empty
  \<^verbatim>\<open>estimateChildPSF\<close> with the kernel of \<open>nid\<close>; otherwise the assignment
  \<^verbatim>\<open>regionTree[cid].psf = regionTree[id].psf\<close>, after which both nodes refer to one
  block.
\<close>

definition estimateChild :: "Ext \<Rightarrow> int \<Rightarrow> int \<Rightarrow> DepthDeblur \<Rightarrow> error + DepthDeblur" where
  "estimateChild ext nid cid dd =
     (let masks = getMasks (regionTree dd) cid
      in if sumMask (masks LEFT) \<noteq> 0 \<and> sumMask (masks RIGHT) \<noteq> 0 then
           estimateChildPSF ext (psfValue dd nid) cid masks dd
         else Inr (assignPsf cid (psf (nodes (regionTree dd) nid)) dd))"

text \<open>\<^verbatim>\<open>regionTree[cid].entropy = computeEntropy(regionTree[cid].psf)\<close>.\<close>

definition storeEntropy :: "int \<Rightarrow> DepthDeblur \<Rightarrow> DepthDeblur" where
  "storeEntropy cid dd = setEntropy cid (computeEntropy (psfValue dd cid)) dd"

definition pushChildren :: "int \<Rightarrow> int \<Rightarrow> DepthDeblur \<Rightarrow> DepthDeblur" where
  "pushChildren cid1 cid2 dd = dd\<lparr>remainingNodes := remainingNodes dd @ [cid1, cid2]\<rparr>"

definition visitLeaf :: "DepthDeblur \<Rightarrow> DepthDeblur" where
  "visitLeaf dd = dd\<lparr>visitedLeafs := visitedLeafs dd + 1\<rparr>"

text \<open>
  The body of the loop of \<^verbatim>\<open>midLevelKernelEstimationNode\<close> for a popped node \<open>nid\<close>,
  run by one thread without interruption.
\<close>

definition estimationNode :: "Ext \<Rightarrow> int \<Rightarrow> DepthDeblur \<Rightarrow> error + DepthDeblur" where
  "estimationNode ext nid dd =
     (let cid1 = fst (children (nodes (regionTree dd) nid));
          cid2 = snd (children (nodes (regionTree dd) nid))
      in if cid1 \<noteq> -1 \<and> cid2 \<noteq> -1 then
           (case estimateChild ext nid cid1 dd of Inl e \<Rightarrow> Inl e | Inr dd1 \<Rightarrow>
            case estimateChild ext nid cid2 dd1 of Inl e \<Rightarrow> Inl e | Inr dd2 \<Rightarrow>
            Inr (pushChildren cid1 cid2 (storeEntropy cid2 (storeEntropy cid1 dd2))))
         else Inr (visitLeaf dd))"

section \<open>The second pass: the kernel of a child is selected\<close>

text \<open>
  The body of the loop of \<^verbatim>\<open>midLevelKernelRefinement\<close> for a popped node \<open>nid\<close>,
  run by one thread without interruption: the candidates of both children, the two
  selections, then the two winners copied to the kernels of the children, and the
  push. \<open>None\<close> is the undefined behaviour of \<^verbatim>\<open>psfSelection\<close>.
\<close>

definition refinementNode :: "Ext \<Rightarrow> int \<Rightarrow> DepthDeblur \<Rightarrow> DepthDeblur option" where
  "refinementNode ext nid dd =
     (let cid1 = fst (children (nodes (regionTree dd) nid));
          cid2 = snd (children (nodes (regionTree dd) nid))
      in if cid1 \<noteq> -1 \<and> cid2 \<noteq> -1 then
           (let candiates1 = candidateSelection dd [] cid1 cid2;
                candiates2 = candidateSelection dd [] cid2 cid1
            in case psfSelection ext dd (map (deref dd) candiates1) cid1 of None \<Rightarrow> None | Some (winner0, dd1) \<Rightarrow>
               case psfSelection ext dd1 (map (deref dd1) candiates2) cid2 of None \<Rightarrow> None | Some (winner1, dd2) \<Rightarrow>
               Some (pushChildren cid1 cid2 (copyToPsf cid2 winner1 (copyToPsf cid1 winner0 dd2))))
         else Some (visitLeaf dd))"

section \<open>Disparity estimation and the top-level kernels\<close>

text \<open>
  The algorithm argument of \<^verbatim>\<open>disparityEstimation\<close>. The enumeration is declared in
  \<^verbatim>\<open>depth_deblur.hpp\<close>; the function compares with \<^verbatim>\<open>SGBM\<close> and \<^verbatim>\<open>MATCH\<close>, and
  \<open>OtherAlgo\<close> stands for every other value of the type.
\<close>

datatype disparityAlgo = SGBM | MATCH | OtherAlgo

text \<open>
  What \<^verbatim>\<open>disparityEstimation\<close> calls: the test \<^verbatim>\<open>type() == CV_8UC3\<close>, \<^verbatim>\<open>cvtColor\<close> to
  grey, \<^verbatim>\<open>pyrDown\<close> to a size (columns, rows), the two disparity algorithms,
  \<^verbatim>\<open>quantizeImage\<close> and \<^verbatim>\<open>resize\<close> with \<^verbatim>\<open>INTER_NEAREST\<close>.
\<close>

record DisparityExt =
  isCV_8UC3 :: "mat \<Rightarrow> bool"
  cvtColorGray :: "mat \<Rightarrow> mat"
  pyrDown :: "mat \<Rightarrow> nat \<times> nat \<Rightarrow> mat"
  disparityFilledSGBM :: "(view \<Rightarrow> mat) \<Rightarrow> (view \<Rightarrow> mat)"
  disparityFilledMatch :: "(view \<Rightarrow> mat) \<Rightarrow> int \<Rightarrow> (view \<Rightarrow> mat)"
  quantizeImage :: "(view \<Rightarrow> mat) \<Rightarrow> int \<Rightarrow> (view \<Rightarrow> mat)"
  resizeNearest :: "mat \<Rightarrow> nat \<times> nat \<Rightarrow> mat"

definition disparityEstimation ::
  "DisparityExt \<Rightarrow> DepthDeblur \<Rightarrow> (view \<Rightarrow> mat) \<Rightarrow> disparityAlgo \<Rightarrow> int \<Rightarrow> error + DepthDeblur" where
  "disparityEstimation dx dd input algorithm maxDisparity =
     (let views = (if algorithm = SGBM \<and> isCV_8UC3 dx (input LEFT)
                   then (\<lambda>v. cvtColorGray dx (input v)) else input);
          sampleRatio = 2;
          downsampledSize = (ncols (views LEFT) div sampleRatio, nrows (views RIGHT) div sampleRatio);
          small = (\<lambda>v. pyrDown dx (views v) downsampledSize)
      in case (if algorithm = SGBM then Inr (disparityFilledSGBM dx small)
               else if algorithm = MATCH then Inr (disparityFilledMatch dx small (cdiv maxDisparity 2))
               else Inl (RuntimeError ''Invalid disparity algorithm'')) of
           Inl e \<Rightarrow> Inl e
         | Inr smallDMaps \<Rightarrow>
             (let quantizedDMaps = quantizeImage dx smallDMaps (layers dd)
              in Inr (dd\<lparr>disparityMaps :=
                          (\<lambda>v. resizeNearest dx (quantizedDMaps v) (ncols (views v), nrows (views v)))\<rparr>)))"

text \<open>
  \<^verbatim>\<open>toplevelKernelEstimation\<close>: for the \<open>i\<close>-th top-level node the image
  \<^verbatim>\<open>kernel<i>.png\<close> is read (\<open>imread i\<close>, \<open>None\<close> when \<^verbatim>\<open>imread\<close> returns no data),
  divided by its sum and copied to the kernel of the node. (For an image of sum zero
  the source divides zero by zero; the zero kernel of the model stands for its NaN
  kernel.)
\<close>

fun toplevelLoop :: "(nat \<Rightarrow> mat option) \<Rightarrow> nat \<Rightarrow> int list \<Rightarrow> DepthDeblur \<Rightarrow> error + DepthDeblur" where
  "toplevelLoop imread i [] dd = Inr dd"
| "toplevelLoop imread i (nid # ids) dd =
     (case imread i of
        None \<Rightarrow> Inl (RuntimeError ''Can not load kernel!'')
      | Some kernelImage \<Rightarrow>
          toplevelLoop imread (i + 1) ids
            (copyToPsf nid (map (map (\<lambda>v. v / sumMat kernelImage)) kernelImage) dd))"

definition toplevelKernelEstimation :: "(nat \<Rightarrow> mat option) \<Rightarrow> DepthDeblur \<Rightarrow> error + DepthDeblur" where
  "toplevelKernelEstimation imread dd = toplevelLoop imread 0 (topLevelNodeIds (regionTree dd)) dd"

section \<open>Reconstruction\<close>

text \<open>
  \<^verbatim>\<open>cvRound\<close> rounds to the nearest integer, a half to the even one;
  \<^verbatim>\<open>convertTo(dst, CV_8U, alpha)\<close> scales, rounds and saturates to \<open>0..255\<close>.
\<close>

definition cvRound :: "real \<Rightarrow> int" where
  "cvRound x =
     (let f = \<lfloor>x\<rfloor>; d = x - of_int f
      in if d < 1 / 2 then f else if d > 1 / 2 then f + 1 else if even f then f else f + 1)"

definition convertTo8U :: "real \<Rightarrow> mat \<Rightarrow> mat" where
  "convertTo8U alpha m = map (map (\<lambda>v. of_int (max 0 (min 255 (cvRound (v * alpha)))))) m"

text \<open>
  The body of the loop of \<^verbatim>\<open>deconvolveRegion\<close> for the popped region \<open>i\<close>: the mask
  of the region, the whole image (colour or float), \<^verbatim>\<open>deconvolveIRLS\<close> into
  \<^verbatim>\<open>regionDeconv[i]\<close>, the two thresholds and the conversion to 8 bit.
\<close>

definition deconvolveRegionCall :: "DepthDeblur \<Rightarrow> view \<Rightarrow> bool \<Rightarrow> int \<Rightarrow> call" where
  "deconvolveRegionCall dd v color i =
     (let msk = getMask (regionTree dd) i v;
          image = (if color then images dd v else floatImages dd v)
      in DeconvolveIRLS image (psfValue dd i) msk)"

definition deconvolveRegionBody :: "Ext \<Rightarrow> view \<Rightarrow> bool \<Rightarrow> int \<Rightarrow> DepthDeblur \<Rightarrow> DepthDeblur" where
  "deconvolveRegionBody ext v color i dd =
     (let c = deconvolveRegionCall dd v color i;
          r = convertTo8U 255 (thresholdTrunc 1 (thresholdToZero 0 (runCall ext c)))
      in dd\<lparr>regionDeconv := vecSet (regionDeconv dd) i r, calls := calls dd @ [c]\<rparr>)"

text \<open>
  \<^verbatim>\<open>deconvolveRegion\<close> as one thread runs it: pop the top of \<^verbatim>\<open>regionStack\<close> and
  work on it, until the stack is empty.
\<close>

fun deconvolveRegionLoop :: "Ext \<Rightarrow> view \<Rightarrow> bool \<Rightarrow> int list \<Rightarrow> DepthDeblur \<Rightarrow> DepthDeblur" where
  "deconvolveRegionLoop ext v color [] dd = dd\<lparr>regionStack := []\<rparr>"
| "deconvolveRegionLoop ext v color (i # stack) dd =
     deconvolveRegionLoop ext v color stack (deconvolveRegionBody ext v color i (dd\<lparr>regionStack := stack\<rparr>))"

definition deconvolveRegion :: "Ext \<Rightarrow> view \<Rightarrow> bool \<Rightarrow> DepthDeblur \<Rightarrow> DepthDeblur" where
  "deconvolveRegion ext v color dd = deconvolveRegionLoop ext v color (regionStack dd) dd"

text \<open>
  \<^verbatim>\<open>deconvolve\<close> with \<^verbatim>\<open>nThreads = 1\<close> (no worker thread, the caller empties the
  stack) up to the regions' images: \<^verbatim>\<open>regionDeconv.resize(layers)\<close>, the regions
  \<open>0 .. layers - 1\<close> pushed in this order, \<^verbatim>\<open>deconvolveRegion\<close>.
\<close>

definition pushAll :: "int list \<Rightarrow> int list \<Rightarrow> int list" where
  "pushAll xs stack = fold (\<lambda>x st. x # st) xs stack"

definition deconvolveRegions :: "Ext \<Rightarrow> view \<Rightarrow> bool \<Rightarrow> DepthDeblur \<Rightarrow> DepthDeblur" where
  "deconvolveRegions ext v color dd =
     (let dd1 = dd\<lparr>regionDeconv := vecResize (regionDeconv dd) (layers dd)\<rparr>;
          dd2 = dd1\<lparr>regionStack := pushAll (map int [0 ..< nat (layers dd1)]) (regionStack dd1)\<rparr>
      in deconvolveRegion ext v color dd2)"

section \<open>The two tree walks with several threads\<close>

text \<open>
  \<^verbatim>\<open>midLevelKernelEstimationNode\<close> and \<^verbatim>\<open>midLevelKernelRefinement\<close> are run by
  \<^verbatim>\<open>nThreads\<close> threads on the same object. A thread is at one of the points below,
  with its local variables \<^verbatim>\<open>id\<close>, \<^verbatim>\<open>cid1\<close>, \<^verbatim>\<open>cid2\<close>, the candidate vectors and
  the winners; one step takes it to the next point. The steps of different threads
  interleave in any order. The pushes and the pop happen under the mutex \<^verbatim>\<open>m\<close>, so
  what a thread wrote before its push is visible to the thread that pops. An exception
  that leaves a thread function terminates the program, as does the read of
  \<^verbatim>\<open>candidates[0]\<close> of an empty vector (\<open>Undefined\<close>).
\<close>

datatype pc =
    Start2
  | AtLoop
  | AtAccess
  | Got int
  | Child1 int int int
  | Child2 int int int
  | Entropy1 int int int
  | Entropy2 int int int
  | Cands int int int
  | Select1 int int int "matRef list" "matRef list"
  | Select2 int int int "matRef list" mat
  | Store1 int int int mat mat
  | Store2 int int int mat
  | Push int int int
  | Leaf
  | Done
  | Thrown error
  | Undefined

text \<open>
  What a step did, read from the object as the step leaves it. \<open>StoredPSF c v\<close>: the
  step wrote the kernel of node \<open>c\<close>, and the kernel of \<open>c\<close> in the tree is now \<open>v\<close>.
  \<open>StoredEntropy c e v\<close>: the step wrote the entropy of node \<open>c\<close>; the entropy of
  \<open>c\<close> in the tree is now \<open>e\<close> and its kernel \<open>v\<close>. \<open>Selected c w\<close>:
  \<^verbatim>\<open>psfSelection\<close> returned the winner \<open>w\<close> for node \<open>c\<close>. \<open>Pushed c\<close> and
  \<open>Popped c\<close>: node \<open>c\<close> entered or left the queue.
\<close>

datatype event =
    StoredPSF int mat
  | StoredEntropy int real mat
  | Selected int mat
  | Pushed int
  | Popped int

text \<open>
  One step of a thread at \<open>pc\<close> on the shared object: the next point, the object, and
  the events of the step in their order. \<open>refine\<close> tells the second walk
  (\<^verbatim>\<open>midLevelKernelRefinement\<close>) from the first.
\<close>

fun workerStep :: "Ext \<Rightarrow> bool \<Rightarrow> pc \<Rightarrow> DepthDeblur \<Rightarrow> pc \<times> DepthDeblur \<times> event list" where
  "workerStep ext refine Start2 dd =
     (AtLoop,
      if deconvAlgoPSFSelection dd = IRLS then dd\<lparr>regionDeconv := vecResize (regionDeconv dd) (layers dd)\<rparr> else dd,
      [])"
| "workerStep ext refine AtLoop dd =
     (if visitedLeafs dd \<noteq> layers dd then AtAccess else Done, dd, [])"
| "workerStep ext refine AtAccess dd =
     (case remainingNodes dd of
        [] \<Rightarrow> (AtLoop, dd, [])
      | item # rest \<Rightarrow> (Got item, dd\<lparr>remainingNodes := rest\<rparr>, [Popped item]))"
| "workerStep ext refine (Got nid) dd =
     (let cid1 = fst (children (nodes (regionTree dd) nid));
          cid2 = snd (children (nodes (regionTree dd) nid))
      in if cid1 \<noteq> -1 \<and> cid2 \<noteq> -1
         then (if refine then Cands nid cid1 cid2 else Child1 nid cid1 cid2, dd, [])
         else (Leaf, dd, []))"
| "workerStep ext refine (Child1 nid cid1 cid2) dd =
     (case estimateChild ext nid cid1 dd of
        Inl e \<Rightarrow> (Thrown e, dd, [])
      | Inr dd1 \<Rightarrow> (Child2 nid cid1 cid2, dd1, [StoredPSF cid1 (psfValue dd1 cid1)]))"
| "workerStep ext refine (Child2 nid cid1 cid2) dd =
     (case estimateChild ext nid cid2 dd of
        Inl e \<Rightarrow> (Thrown e, dd, [])
      | Inr dd1 \<Rightarrow> (Entropy1 nid cid1 cid2, dd1, [StoredPSF cid2 (psfValue dd1 cid2)]))"
| "workerStep ext refine (Entropy1 nid cid1 cid2) dd =
     (let dd1 = storeEntropy cid1 dd
      in (Entropy2 nid cid1 cid2, dd1,
          [StoredEntropy cid1 (entropy (nodes (regionTree dd1) cid1)) (psfValue dd1 cid1)]))"
| "workerStep ext refine (Entropy2 nid cid1 cid2) dd =
     (let dd1 = storeEntropy cid2 dd
      in (Push nid cid1 cid2, dd1,
          [StoredEntropy cid2 (entropy (nodes (regionTree dd1) cid2)) (psfValue dd1 cid2)]))"
| "workerStep ext refine (Cands nid cid1 cid2) dd =
     (Select1 nid cid1 cid2 (candidateSelection dd [] cid1 cid2) (candidateSelection dd [] cid2 cid1), dd, [])"
| "workerStep ext refine (Select1 nid cid1 cid2 candiates1 candiates2) dd =
     (case psfSelection ext dd (map (deref dd) candiates1) cid1 of
        None \<Rightarrow> (Undefined, dd, [])
      | Some (winner0, dd1) \<Rightarrow> (Select2 nid cid1 cid2 candiates2 winner0, dd1, [Selected cid1 winner0]))"
| "workerStep ext refine (Select2 nid cid1 cid2 candiates2 winner0) dd =
     (case psfSelection ext dd (map (deref dd) candiates2) cid2 of
        None \<Rightarrow> (Undefined, dd, [])
      | Some (winner1, dd1) \<Rightarrow> (Store1 nid cid1 cid2 winner0 winner1, dd1, [Selected cid2 winner1]))"
| "workerStep ext refine (Store1 nid cid1 cid2 winner0 winner1) dd =
     (let dd1 = copyToPsf cid1 winner0 dd
      in (Store2 nid cid1 cid2 winner1, dd1, [StoredPSF cid1 (psfValue dd1 cid1)]))"
| "workerStep ext refine (Store2 nid cid1 cid2 winner1) dd =
     (let dd1 = copyToPsf cid2 winner1 dd
      in (Push nid cid1 cid2, dd1, [StoredPSF cid2 (psfValue dd1 cid2)]))"
| "workerStep ext refine (Push nid cid1 cid2) dd =
     (AtLoop, pushChildren cid1 cid2 dd, [Pushed cid1, Pushed cid2])"
| "workerStep ext refine Leaf dd = (AtLoop, visitLeaf dd, [])"
| "workerStep ext refine Done dd = (Done, dd, [])"
| "workerStep ext refine (Thrown e) dd = (Thrown e, dd, [])"
| "workerStep ext refine Undefined dd = (Undefined, dd, [])"

text \<open>
  The program: the shared object, the point of every thread, and the events so far,
  the latest first.
\<close>

record machine =
  shared :: DepthDeblur
  workers :: "pc list"
  trace :: "event list"

fun halted :: "pc \<Rightarrow> bool" where
  "halted (Thrown e) = True"
| "halted Undefined = True"
| "halted p = False"

text \<open>Thread \<open>k\<close> takes a step, unless the program has terminated.\<close>

definition step :: "Ext \<Rightarrow> bool \<Rightarrow> nat \<Rightarrow> machine \<Rightarrow> machine" where
  "step ext refine k m =
     (if k < length (workers m) \<and> \<not> list_ex halted (workers m) then
        (case workerStep ext refine (workers m ! k) (shared m) of
           (p, dd, evs) \<Rightarrow> \<lparr> shared = dd, workers = (workers m)[k := p], trace = rev evs @ trace m \<rparr>)
      else m)"

definition run :: "Ext \<Rightarrow> bool \<Rightarrow> nat list \<Rightarrow> machine \<Rightarrow> machine" where
  "run ext refine schedule m = fold (step ext refine) schedule m"










section \<open>A small tree for examples\<close>

text \<open>
  Node 2 is the only top-level node, with the leaves 0 and 1 as its children. All
  images are one pixel; the region of leaf 1 is empty in the right view. The kernels
  and entropies of the nodes are given by \<open>k\<close> and \<open>e\<close>.
\<close>

definition smallTree :: "(int \<Rightarrow> matRef) \<Rightarrow> (int \<Rightarrow> real) \<Rightarrow> RegionTree" where
  "smallTree k e =
     \<lparr> nodes = (\<lambda>i. if i = 2 then \<lparr> parent = -1, children = (0, 1), psf = k i, entropy = e i \<rparr>
                     else \<lparr> parent = 2, children = (-1, -1), psf = k i, entropy = e i \<rparr>),
       topLevelNodeIds = [2],
       getMask = (\<lambda>i v. if i = 1 \<and> v = RIGHT then [[0]] else [[1]]),
       getMasks = (\<lambda>i v. if i = 1 \<and> v = RIGHT then [[0]] else [[1]]),
       getLevelPeers = (\<lambda>i. if i = 2 then [2] else [0, 1]) \<rparr>"

text \<open>Three blocks of one pixel, at the addresses 0, 1 and 2.\<close>

definition smallPixels :: "nat \<Rightarrow> mat" where
  "smallPixels a = (if a = 0 then [[1 / 510]] else if a = 1 then [[1 / 255]] else if a = 2 then [[1]] else [])"

definition smallDeblur :: "deconvAlgo \<Rightarrow> RegionTree \<Rightarrow> DepthDeblur" where
  "smallDeblur a rt =
     \<lparr> psfWidth = 1, layers = 2,
       images = (\<lambda>v. [[128]]), floatImages = (\<lambda>v. [[1 / 2]]),
       disparityMaps = (\<lambda>v. [[0]]),
       gradsLeft = ([[1]], [[1]]), gradsRight = ([[1]], [[1]]),
       deconvAlgoPSFSelection = a,
       regionTree = rt,
       regionDeconv = [], remainingNodes = [], regionStack = [],
       visitedLeafs = 0, pixels = smallPixels, nextBlock = 3, calls = [] \<rparr>"

text \<open>
  The tree before the first pass: only the top-level node has a kernel, \<open>[[1]]\<close> in
  block 2.
\<close>

definition initialTree :: RegionTree where
  "initialTree = smallTree (\<lambda>i. if i = 2 then Some 2 else None) (\<lambda>i. 0)"

text \<open>
  A tree as the first pass may leave it: leaf 0 has a kernel of its own,
  \<open>[[1 / 510]]\<close> in block 0; leaf 1 refers to the block of its parent, block 1 with
  \<open>[[1 / 255]]\<close>.
\<close>

definition estimatedTree :: RegionTree where
  "estimatedTree = smallTree (\<lambda>i. if i = 0 then Some 0 else Some 1) (\<lambda>i. if i = 0 then 2 else 0)"

text \<open>
  The same tree on images of two pixels, where the left mask of every node is the
  first pixel only, with the frequency-domain solver selected.
\<close>

definition halfMaskDeblur :: DepthDeblur where
  "halfMaskDeblur =
     (smallDeblur FFT (estimatedTree\<lparr>getMask := (\<lambda>i v. [[1, 0]])\<rparr>))\<lparr>floatImages := (\<lambda>v. [[1 / 2, 1 / 4]])\<rparr>"

text \<open>
  Collaborators for the examples: both solvers return the blurred image times the
  top-left entry of the kernel, the filters change nothing, a gradient image is the
  image itself with one more row \<open>[1]\<close>, and the correlation is the top-left pixel of
  its first argument.
\<close>

definition smallExt :: Ext where
  "smallExt =
     \<lparr> deconvolveFFT = (\<lambda>src k. scaleMat (hd (hd k)) src),
       deconvolveIRLS = (\<lambda>src k m. scaleMat (hd (hd k)) src),
       GaussianBlur = (\<lambda>m. m),
       coherenceFilter = (\<lambda>m. m),
       Sobel = (\<lambda>m dx dy. m),
       normedGradients = (\<lambda>(gx, gy). gx @ [[1]]),
       crossCorrelation = (\<lambda>X Y m. hd (hd X)),
       computeSalientEdgeMap = (\<lambda>m w k. (m, m)),
       dft = (\<lambda>m. map (map complex_of_real) m),
       idft = (\<lambda>m. map (map Re) m) \<rparr>"

text \<open>
  An inverse transform of three rows and columns, its centre \<open>4\<close> in the top-left
  corner and one negative entry.
\<close>

definition cornerKernel :: mat where
  "cornerKernel = [[4, 1, 1], [1, -1, 0], [1, 0, 1]]"


definition cornerDeblur :: "deconvAlgo \<Rightarrow> DepthDeblur" where
  "cornerDeblur a = (smallDeblur a initialTree)\<lparr>psfWidth := 3\<rparr>"

text \<open>
  Collaborators whose estimate depends on the kernel of the parent: the
  frequency-domain solver returns the image times the top-left entry of the kernel
  over 255, and the inverse transform is \<open>cornerKernel\<close> with the real part of the
  first bin of the spectrum as its last entry.
\<close>

definition spectrumExt :: Ext where
  "spectrumExt =
     smallExt\<lparr>deconvolveFFT := (\<lambda>src k. scaleMat (hd (hd k) / 255) src),
              idft := (\<lambda>K. [[4, 1, 1], [1, -1, 0], [1, 0, Re (K ! 0 ! 0)]])\<rparr>"

section \<open>A tree of three leaves\<close>

text \<open>
  Node 4 is the only top-level node, with the children 3 and 2; node 3 has the leaves
  0 and 1 as its children. All images are one pixel; the region of leaf 0 is empty in
  the left view. The headers of the kernels are given by \<open>k\<close>, all entropies are 0.
  The kernel of node 4 is \<open>topKernel\<close> in block 0, no other node has a kernel, and
  the kernels are three by three. With \<open>deepExt\<close> the inverse transform is
  \<open>topKernel\<close> whatever the spectrum, so that every estimated kernel is
  \<open>centreKernel\<close>.
\<close>

definition deepTree :: "(int \<Rightarrow> matRef) \<Rightarrow> RegionTree" where
  "deepTree k =
     \<lparr> nodes = (\<lambda>i. if i = 4 then \<lparr> parent = -1, children = (3, 2), psf = k i, entropy = 0 \<rparr>
                     else if i = 3 then \<lparr> parent = 4, children = (0, 1), psf = k i, entropy = 0 \<rparr>
                     else if i = 2 then \<lparr> parent = 4, children = (-1, -1), psf = k i, entropy = 0 \<rparr>
                     else \<lparr> parent = 3, children = (-1, -1), psf = k i, entropy = 0 \<rparr>),
       topLevelNodeIds = [4],
       getMask = (\<lambda>i v. if i = 0 \<and> v = LEFT then [[0]] else [[1]]),
       getMasks = (\<lambda>i v. if i = 0 \<and> v = LEFT then [[0]] else [[1]]),
       getLevelPeers = (\<lambda>i. if i = 4 then [4] else if i = 3 \<or> i = 2 then [3, 2] else [0, 1]) \<rparr>"

definition topKernel :: mat where
  "topKernel = [[1, 0, 0], [0, 0, 0], [0, 0, 0]]"

definition centreKernel :: mat where
  "centreKernel = [[0, 0, 0], [0, 1, 0], [0, 0, 0]]"

definition deepExt :: Ext where
  "deepExt = smallExt\<lparr>idft := (\<lambda>K. topKernel)\<rparr>"

definition deepDeblur :: DepthDeblur where
  "deepDeblur =
     \<lparr> psfWidth = 3, layers = 3,
       images = (\<lambda>v. [[128]]), floatImages = (\<lambda>v. [[1 / 2]]),
       disparityMaps = (\<lambda>v. [[0]]),
       gradsLeft = ([[1]], [[1]]), gradsRight = ([[1]], [[1]]),
       deconvAlgoPSFSelection = FFT,
       regionTree = deepTree (\<lambda>i. if i = 4 then Some 0 else None),
       regionDeconv = [], remainingNodes = [], regionStack = [],
       visitedLeafs = 0, pixels = (\<lambda>a. if a = 0 then topKernel else []), nextBlock = 1, calls = [] \<rparr>"

section \<open>Theorems\<close>

subsection \<open>Reading a kernel\<close>

lemma deref_cong: "pixels dd' = pixels dd \<Longrightarrow> deref dd' r = deref dd r"
  by (cases r) (simp_all add: deref_def)

lemma psfValue_cong:
  "pixels dd' = pixels dd \<Longrightarrow> regionTree dd' = regionTree dd \<Longrightarrow> psfValue dd' i = psfValue dd i"
  unfolding psfValue_def using deref_cong [of dd' dd] by simp

lemma psfValue_updates:
  "psfValue (dd\<lparr>deconvAlgoPSFSelection := a\<rparr>) i = psfValue dd i"
  "psfValue (dd\<lparr>regionStack := st\<rparr>) i = psfValue dd i"
  "psfValue (dd\<lparr>regionDeconv := rd\<rparr>) i = psfValue dd i"
  "psfValue (dd\<lparr>remainingNodes := q\<rparr>) i = psfValue dd i"
  "psfValue (dd\<lparr>visitedLeafs := n\<rparr>) i = psfValue dd i"
  "psfValue (dd\<lparr>calls := cl\<rparr>) i = psfValue dd i"
  by (rule psfValue_cong, simp, simp)+

subsection \<open>Reliability\<close>

lemma sumEntropy_sum_list:
  "sumEntropy rt peers s = s + (\<Sum>nid \<leftarrow> peers. entropy (nodes rt nid))"
  by (induction peers arbitrary: s) simp_all

text \<open>
  C4. \<^verbatim>\<open>isReliablePSF(n)\<close> is true exactly when the entropy of \<open>n\<close> minus the mean
  entropy of the nodes of its level is strictly less than 0.2 times that mean (for a
  level that has nodes); for the level entropies \<open>1, 1, 1, 5\<close> the mean is 2, a node
  of entropy 1 is reliable and the node of entropy 5 is not.
\<close>

theorem isReliablePSF_iff_below_threshold:
  "(getLevelPeers rt n \<noteq> [] \<longrightarrow>
      isReliablePSF rt n = (entropy (nodes rt n) - levelMean rt n < 0.2 * levelMean rt n))
   \<and> levelMean exampleTree 0 = 2
   \<and> isReliablePSF exampleTree 0
   \<and> \<not> isReliablePSF exampleTree 3"
proof -
  have general: "getLevelPeers rt n \<noteq> [] \<longrightarrow>
      isReliablePSF rt n = (entropy (nodes rt n) - levelMean rt n < 0.2 * levelMean rt n)"
  proof
    assume ne: "getLevelPeers rt n \<noteq> []"
    show "isReliablePSF rt n = (entropy (nodes rt n) - levelMean rt n < 0.2 * levelMean rt n)"
      unfolding isReliablePSF_def levelMean_def Let_def sumEntropy_sum_list
      by (simp only: ne if_False add_0)
  qed
  have m: "levelMean exampleTree 0 = 2"
    by (simp add: levelMean_def exampleTree_def exampleNode_def)
  have r0: "isReliablePSF exampleTree 0"
    by (simp add: isReliablePSF_def exampleTree_def exampleNode_def Let_def)
  have r3: "\<not> isReliablePSF exampleTree 3"
    by (simp add: isReliablePSF_def exampleTree_def exampleNode_def Let_def)
  from general m r0 r3 show ?thesis by blast
qed

theorem isReliablePSF_iff_below_threshold_witness:
  "getLevelPeers exampleTree 1 \<noteq> []
   \<and> isReliablePSF exampleTree 1
   \<and> entropy (nodes exampleTree 1) - levelMean exampleTree 1 < 0.2 * levelMean exampleTree 1"
proof -
  have ne: "getLevelPeers exampleTree 1 \<noteq> []"
    by (simp add: exampleTree_def)
  have r1: "isReliablePSF exampleTree 1"
    by (simp add: isReliablePSF_def exampleTree_def exampleNode_def Let_def)
  from isReliablePSF_iff_below_threshold [of exampleTree 1] ne r1 show ?thesis
    by blast
qed

subsection \<open>Selection of the winning candidate\<close>

lemma selectLoop_spec:
  "selectLoop es i m w = (m', w') \<Longrightarrow>
     m' \<le> m \<and> (\<forall>e \<in> set es. m' \<le> e) \<and>
     ((w' = w \<and> m' = m) \<or>
      (i \<le> w' \<and> w' < i + length es \<and> es ! (w' - i) = m' \<and> m' < m \<and> (\<forall>j < w' - i. m' < es ! j)))"
proof (induction es arbitrary: i m w)
  case Nil
  then show ?case by simp
next
  case (Cons e es)
  show ?case
  proof (cases "e < m")
    case True
    with Cons.prems have r: "selectLoop es (i + 1) e i = (m', w')" by simp
    from Cons.IH [OF r] have le: "m' \<le> e" and all: "\<forall>x \<in> set es. m' \<le> x"
      and alt: "(w' = i \<and> m' = e) \<or>
        (i + 1 \<le> w' \<and> w' < i + 1 + length es \<and> es ! (w' - (i + 1)) = m' \<and> m' < e \<and> (\<forall>j < w' - (i + 1). m' < es ! j))"
      by blast+
    from alt show ?thesis
    proof
      assume "w' = i \<and> m' = e"
      with True le all show ?thesis by auto
    next
      assume a: "i + 1 \<le> w' \<and> w' < i + 1 + length es \<and> es ! (w' - (i + 1)) = m' \<and> m' < e \<and> (\<forall>j < w' - (i + 1). m' < es ! j)"
      then have idx: "w' - i = Suc (w' - (i + 1))" by arith
      have "\<forall>j < w' - i. m' < (e # es) ! j"
      proof (intro allI impI)
        fix j assume "j < w' - i"
        with a idx show "m' < (e # es) ! j" by (cases j) auto
      qed
      with a idx True le all show ?thesis by auto
    qed
  next
    case False
    with Cons.prems have r: "selectLoop es (i + 1) m w = (m', w')" by simp
    from Cons.IH [OF r] have le: "m' \<le> m" and all: "\<forall>x \<in> set es. m' \<le> x"
      and alt: "(w' = w \<and> m' = m) \<or>
        (i + 1 \<le> w' \<and> w' < i + 1 + length es \<and> es ! (w' - (i + 1)) = m' \<and> m' < m \<and> (\<forall>j < w' - (i + 1). m' < es ! j))"
      by blast+
    from alt show ?thesis
    proof
      assume "w' = w \<and> m' = m"
      with False le all show ?thesis by auto
    next
      assume a: "i + 1 \<le> w' \<and> w' < i + 1 + length es \<and> es ! (w' - (i + 1)) = m' \<and> m' < m \<and> (\<forall>j < w' - (i + 1). m' < es ! j)"
      then have idx: "w' - i = Suc (w' - (i + 1))" by arith
      have "\<forall>j < w' - i. m' < (e # es) ! j"
      proof (intro allI impI)
        fix j assume "j < w' - i"
        with a idx False show "m' < (e # es) ! j" by (cases j) auto
      qed
      with a idx False le all show ?thesis by auto
    qed
  qed
qed

lemma psfSelectionCall_frame:
  assumes "floatImages dd' = floatImages dd" and "deconvAlgoPSFSelection dd' = deconvAlgoPSFSelection dd"
    and "regionTree dd' = regionTree dd"
  shows "psfSelectionCall dd' nid c = psfSelectionCall dd nid c"
  unfolding psfSelectionCall_def assms ..

lemma candidateLatent_frame:
  assumes "floatImages dd' = floatImages dd" and "deconvAlgoPSFSelection dd' = deconvAlgoPSFSelection dd"
    and "regionTree dd' = regionTree dd"
  shows "candidateLatent ext dd' nid c = candidateLatent ext dd nid c"
  unfolding candidateLatent_def psfSelectionCall_frame [OF assms] ..

lemma candidateEnergy_frame:
  assumes "floatImages dd' = floatImages dd" and "deconvAlgoPSFSelection dd' = deconvAlgoPSFSelection dd"
    and "regionTree dd' = regionTree dd"
  shows "candidateEnergy ext dd' nid c = candidateEnergy ext dd nid c"
  unfolding candidateEnergy_def candidateLatent_frame [OF assms] assms(3) ..

lemma psfSelectionLoop_abstract:
  "floatImages dd = floatImages dd0 \<Longrightarrow> deconvAlgoPSFSelection dd = deconvAlgoPSFSelection dd0 \<Longrightarrow>
   regionTree dd = regionTree dd0 \<Longrightarrow>
   (case psfSelectionLoop ext nid cs i m w dd of (m', w', dd') \<Rightarrow>
      (m', w') = selectLoop (map (candidateEnergy ext dd0 nid) cs) i m w
      \<and> floatImages dd' = floatImages dd0 \<and> deconvAlgoPSFSelection dd' = deconvAlgoPSFSelection dd0
      \<and> regionTree dd' = regionTree dd0
      \<and> calls dd' = calls dd @ map (psfSelectionCall dd0 nid) cs)"
proof (induction cs arbitrary: i m w dd)
  case Nil
  then show ?case by simp
next
  case (Cons c cs)
  have e: "candidateEnergy ext dd nid c = candidateEnergy ext dd0 nid c"
    using Cons.prems by (rule candidateEnergy_frame)
  have pc: "psfSelectionCall dd nid c = psfSelectionCall dd0 nid c"
    using Cons.prems by (rule psfSelectionCall_frame)
  show ?case
  proof (cases "candidateEnergy ext dd0 nid c < m")
    case True
    let ?dd1 = "dd\<lparr>calls := calls dd @ [psfSelectionCall dd nid c]\<rparr>"
    let ?dd2 = "if fst (children (nodes (regionTree ?dd1) nid)) = -1 \<and> deconvAlgoPSFSelection ?dd1 = IRLS
              then ?dd1\<lparr>regionDeconv := vecSet (regionDeconv ?dd1) nid (candidateLatent ext dd nid c)\<rparr>
              else ?dd1"
    have f: "floatImages ?dd2 = floatImages dd0" "deconvAlgoPSFSelection ?dd2 = deconvAlgoPSFSelection dd0"
      "regionTree ?dd2 = regionTree dd0" "calls ?dd2 = calls dd @ [psfSelectionCall dd0 nid c]"
      using Cons.prems pc by simp_all
    from Cons.IH [OF f(1) f(2) f(3), of "i + 1" "candidateEnergy ext dd0 nid c" i]
    show ?thesis using True e f(4) by (simp add: Let_def)
  next
    case False
    let ?dd1 = "dd\<lparr>calls := calls dd @ [psfSelectionCall dd nid c]\<rparr>"
    have f: "floatImages ?dd1 = floatImages dd0" "deconvAlgoPSFSelection ?dd1 = deconvAlgoPSFSelection dd0"
      "regionTree ?dd1 = regionTree dd0" "calls ?dd1 = calls dd @ [psfSelectionCall dd0 nid c]"
      using Cons.prems pc by simp_all
    from Cons.IH [OF f(1) f(2) f(3), of "i + 1" m w]
    show ?thesis using False e f(4) by (simp add: Let_def)
  qed
qed

lemma psfSelection_result:
  "psfSelectionLoop ext nid cs 0 2 0 dd = (m', w', dd') \<Longrightarrow>
   selectLoop (map (candidateEnergy ext dd nid) cs) 0 2 0 = (m', w')"
  using psfSelectionLoop_abstract [of dd dd ext nid cs 0 2 0] by simp

text \<open>
  The candidates of a child are, in this order, the header of its own kernel, the
  header of the kernel of its parent and, only if the sibling is reliable, the header
  of the kernel of the sibling. \<^verbatim>\<open>psfSelection\<close> starts from \<^verbatim>\<open>minEnergy = 2\<close>, the
  largest value of \<open>1 - correlation\<close> for a normalised cross correlation
  (\<^verbatim>\<open>crossCorrelation\<close> of \<^verbatim>\<open>utils.hpp\<close>, whose values lie in \<open>[-1, 1]\<close>). With
  energies of at most 2 it returns the candidate of smallest energy, the earliest one
  among equals: every earlier candidate has a strictly larger energy. The energy of
  the winner is never above the energy of the first candidate.
\<close>

lemma psfSelection_first_minimum:
  "candidateSelection dd [] nid sid =
     psf (nodes (regionTree dd) nid) # psf (nodes (regionTree dd) (parent (nodes (regionTree dd) nid))) #
     (if isReliablePSF (regionTree dd) sid then [psf (nodes (regionTree dd) sid)] else [])
   \<and> (candidates \<noteq> [] \<and> (\<forall>c \<in> set candidates. candidateEnergy ext dd nid c \<le> 2) \<longrightarrow>
        map_option fst (psfSelection ext dd candidates nid) =
          Some (candidates ! psfSelectionWinner ext dd candidates nid)
        \<and> psfSelectionWinner ext dd candidates nid < length candidates
        \<and> (\<forall>j < length candidates.
              candidateEnergy ext dd nid (candidates ! psfSelectionWinner ext dd candidates nid)
              \<le> candidateEnergy ext dd nid (candidates ! j))
        \<and> (\<forall>j < psfSelectionWinner ext dd candidates nid.
              candidateEnergy ext dd nid (candidates ! psfSelectionWinner ext dd candidates nid)
              < candidateEnergy ext dd nid (candidates ! j)))
   \<and> (candidates \<noteq> [] \<longrightarrow>
        candidateEnergy ext dd nid (candidates ! psfSelectionWinner ext dd candidates nid)
        \<le> candidateEnergy ext dd nid (candidates ! 0))"
proof -
  let ?E = "candidateEnergy ext dd nid"
  let ?es = "map ?E candidates"
  let ?w = "psfSelectionWinner ext dd candidates nid"
  obtain m' w' dd' where loop: "psfSelectionLoop ext nid candidates 0 2 0 dd = (m', w', dd')"
    by (cases "psfSelectionLoop ext nid candidates 0 2 0 dd") auto
  have w: "?w = w'" by (simp add: psfSelectionWinner_def loop)
  from psfSelection_result [OF loop] have sel: "selectLoop ?es 0 2 0 = (m', w')" .
  from selectLoop_spec [OF sel]
  have le2: "m' \<le> 2" and lower: "\<forall>e \<in> set ?es. m' \<le> e"
    and alt: "(w' = 0 \<and> m' = 2) \<or>
       (w' < length ?es \<and> ?es ! w' = m' \<and> m' < 2 \<and> (\<forall>j < w'. m' < ?es ! j))"
    by auto
  have order: "candidateSelection dd [] nid sid =
     psf (nodes (regionTree dd) nid) # psf (nodes (regionTree dd) (parent (nodes (regionTree dd) nid))) #
     (if isReliablePSF (regionTree dd) sid then [psf (nodes (regionTree dd) sid)] else [])"
    by (simp add: candidateSelection_def Let_def)
  have lowerE: "\<And>j. j < length candidates \<Longrightarrow> m' \<le> ?E (candidates ! j)"
    using lower by simp
  have range: "candidates \<noteq> [] \<Longrightarrow> w' < length candidates"
    using alt by auto
  have own: "candidates \<noteq> [] \<longrightarrow> ?E (candidates ! ?w) \<le> ?E (candidates ! 0)"
  proof
    assume ne: "candidates \<noteq> []"
    from alt show "?E (candidates ! ?w) \<le> ?E (candidates ! 0)"
    proof
      assume "w' = 0 \<and> m' = 2"
      then show ?thesis by (simp add: w)
    next
      assume a: "w' < length ?es \<and> ?es ! w' = m' \<and> m' < 2 \<and> (\<forall>j < w'. m' < ?es ! j)"
      then have "?E (candidates ! w') = m'" by auto
      moreover have "m' \<le> ?E (candidates ! 0)" using lowerE [of 0] ne by simp
      ultimately show ?thesis by (simp add: w)
    qed
  qed
  have minimum: "candidates \<noteq> [] \<and> (\<forall>c \<in> set candidates. ?E c \<le> 2) \<longrightarrow>
        map_option fst (psfSelection ext dd candidates nid) = Some (candidates ! ?w)
        \<and> ?w < length candidates
        \<and> (\<forall>j < length candidates. ?E (candidates ! ?w) \<le> ?E (candidates ! j))
        \<and> (\<forall>j < ?w. ?E (candidates ! ?w) < ?E (candidates ! j))"
  proof (intro impI)
    assume h: "candidates \<noteq> [] \<and> (\<forall>c \<in> set candidates. ?E c \<le> 2)"
    then have ne: "candidates \<noteq> []" and bound: "\<And>j. j < length candidates \<Longrightarrow> ?E (candidates ! j) \<le> 2"
      by auto
    have ret: "map_option fst (psfSelection ext dd candidates nid) = Some (candidates ! ?w)"
      using ne by (simp add: psfSelection_def loop w)
    have val: "?E (candidates ! w') = m'"
    proof -
      from alt show ?thesis
      proof
        assume a: "w' = 0 \<and> m' = 2"
        have "?E (candidates ! 0) \<le> 2" using bound [of 0] ne by simp
        moreover have "2 \<le> ?E (candidates ! 0)" using lowerE [of 0] ne a by simp
        ultimately show ?thesis using a by simp
      next
        assume "w' < length ?es \<and> ?es ! w' = m' \<and> m' < 2 \<and> (\<forall>j < w'. m' < ?es ! j)"
        then show ?thesis by auto
      qed
    qed
    have strict: "\<forall>j < w'. ?E (candidates ! w') < ?E (candidates ! j)"
    proof (intro allI impI)
      fix j assume j: "j < w'"
      with alt have a: "w' < length ?es \<and> ?es ! w' = m' \<and> m' < 2 \<and> (\<forall>j < w'. m' < ?es ! j)"
        by auto
      with j have "m' < ?es ! j" by blast
      moreover have "j < length candidates" using j a by simp
      ultimately show "?E (candidates ! w') < ?E (candidates ! j)" using val by simp
    qed
    show "map_option fst (psfSelection ext dd candidates nid) = Some (candidates ! ?w)
        \<and> ?w < length candidates
        \<and> (\<forall>j < length candidates. ?E (candidates ! ?w) \<le> ?E (candidates ! j))
        \<and> (\<forall>j < ?w. ?E (candidates ! ?w) < ?E (candidates ! j))"
      using ret range [OF ne] val lowerE strict by (simp add: w)
  qed
  from order minimum own show ?thesis by blast
qed

lemma ex_energy0: "candidateEnergy smallExt (smallDeblur IRLS estimatedTree) 0 [[1 / 510]] = 3 / 4"
  by (simp add: candidateEnergy_def candidateLatent_def psfSelectionCall_def smallExt_def smallDeblur_def
      estimatedTree_def smallTree_def gradientCorrelation_def scaleMat_def thresholdTrunc_def thresholdToZero_def
      copyToMasked_def maxLoc_def Let_def)

lemma ex_energy1: "candidateEnergy smallExt (smallDeblur IRLS estimatedTree) 0 [[1 / 255]] = 1 / 2"
  by (simp add: candidateEnergy_def candidateLatent_def psfSelectionCall_def smallExt_def smallDeblur_def
      estimatedTree_def smallTree_def gradientCorrelation_def scaleMat_def thresholdTrunc_def thresholdToZero_def
      copyToMasked_def maxLoc_def Let_def)

lemma ex_cands:
  "candidateSelection (smallDeblur IRLS estimatedTree) [] 0 1 = [Some 0, Some 1, Some 1]
   \<and> map (deref (smallDeblur IRLS estimatedTree)) [Some 0, Some 1, Some 1] = [[[1 / 510]], [[1 / 255]], [[1 / 255]]]"
  by (simp add: candidateSelection_def smallDeblur_def estimatedTree_def smallTree_def isReliablePSF_def
      deref_def smallPixels_def Let_def)

lemma psfSelectionWinner_selectLoop:
  "psfSelectionWinner ext dd cs nid = snd (selectLoop (map (candidateEnergy ext dd nid) cs) 0 2 0)"
proof -
  obtain m' w' dd' where loop: "psfSelectionLoop ext nid cs 0 2 0 dd = (m', w', dd')"
    by (cases "psfSelectionLoop ext nid cs 0 2 0 dd") auto
  from psfSelection_result [OF loop] show ?thesis
    by (simp add: psfSelectionWinner_def loop)
qed

lemma ex_winner: "psfSelectionWinner smallExt (smallDeblur IRLS estimatedTree) [[[1 / 510]], [[1 / 255]], [[1 / 255]]] 0 = 1"
  by (simp add: psfSelectionWinner_selectLoop ex_energy0 ex_energy1)

lemma psfSelection_first_minimum_example:
  "candidateSelection (smallDeblur IRLS estimatedTree) [] 0 1 = [Some 0, Some 1, Some 1]
   \<and> map (deref (smallDeblur IRLS estimatedTree)) [Some 0, Some 1, Some 1] = [[[1 / 510]], [[1 / 255]], [[1 / 255]]]
   \<and> map (candidateEnergy smallExt (smallDeblur IRLS estimatedTree) 0) [[[1 / 510]], [[1 / 255]], [[1 / 255]]]
       = [3 / 4, 1 / 2, 1 / 2]
   \<and> psfSelectionWinner smallExt (smallDeblur IRLS estimatedTree) [[[1 / 510]], [[1 / 255]], [[1 / 255]]] 0 = 1
   \<and> map_option fst (psfSelection smallExt (smallDeblur IRLS estimatedTree) [[[1 / 510]], [[1 / 255]], [[1 / 255]]] 0)
       = Some [[1 / 255]]"
proof -
  let ?dd = "smallDeblur IRLS estimatedTree"
  let ?cs = "[[[1 / 510]], [[1 / 255]], [[1 / 255 :: real]]]"
  have e: "map (candidateEnergy smallExt ?dd 0) ?cs = [3 / 4, 1 / 2, 1 / 2]"
    by (simp add: ex_energy0 ex_energy1)
  have hyp: "?cs \<noteq> [] \<and> (\<forall>c \<in> set ?cs. candidateEnergy smallExt ?dd 0 c \<le> 2)"
    by (simp add: ex_energy0 ex_energy1)
  have w: "psfSelectionWinner smallExt ?dd ?cs 0 = 1"
    by (rule ex_winner)
  from psfSelection_first_minimum [of ?dd 0 1 ?cs smallExt] hyp
  have "map_option fst (psfSelection smallExt ?dd ?cs 0) = Some (?cs ! psfSelectionWinner smallExt ?dd ?cs 0)"
    by blast
  with w have r: "map_option fst (psfSelection smallExt ?dd ?cs 0) = Some [[1 / 255]]" by simp
  from ex_cands e w r show ?thesis by blast
qed

subsection \<open>Scoring: the solver call and the energy\<close>

lemma clamp_scale:
  "scaleMat 255 (thresholdTrunc 1 (thresholdToZero 0 m)) = map (map (\<lambda>v. 255 * min 1 (max 0 v))) m"
  by (auto simp: scaleMat_def thresholdTrunc_def thresholdToZero_def min_def max_def)

text \<open>
  C7, as the code has it. For every candidate that \<^verbatim>\<open>psfSelection\<close> scores, the
  reference (left) view is deconvolved with the candidate as kernel: under the
  iterative solver restricted to the mask of the child, under the frequency-domain
  solver with no mask at all (\<^verbatim>\<open>deconvolveFFT\<close> takes none). In both cases the result
  is clamped to \<open>[0, 1]\<close> and scaled by 255, and the energy is 1 minus the cross
  correlation of the gradient magnitudes of this image and of its Gaussian-smoothed,
  shock-filtered version, both cut to the mask of the child.
\<close>

theorem psfSelection_mask_only_for_IRLS:
  "(deconvAlgoPSFSelection dd = IRLS \<longrightarrow>
      psfSelectionCall dd nid c = DeconvolveIRLS (floatImages dd LEFT) c (getMask (regionTree dd) nid LEFT))
   \<and> (deconvAlgoPSFSelection dd = FFT \<longrightarrow>
      psfSelectionCall dd nid c = DeconvolveFFT (floatImages dd LEFT) c
      \<and> callMask (psfSelectionCall dd nid c) = None)
   \<and> calls (snd (snd (psfSelectionLoop ext nid candidates 0 2 0 dd)))
       = calls dd @ map (psfSelectionCall dd nid) candidates
   \<and> candidateLatent ext dd nid c
       = map (map (\<lambda>v. 255 * min 1 (max 0 v))) (runCall ext (psfSelectionCall dd nid c))
   \<and> candidateEnergy ext dd nid c
       = 1 - gradientCorrelation ext (candidateLatent ext dd nid c)
               (coherenceFilter ext (GaussianBlur ext (candidateLatent ext dd nid c)))
               (getMask (regionTree dd) nid LEFT)
   \<and> gradientCorrelation ext image1 image2 msk
       = crossCorrelation ext
           (copyToMasked (scaleMat (1 / maxLoc (normedGradients ext (Sobel ext image1 1 0, Sobel ext image1 0 1)))
                            (normedGradients ext (Sobel ext image1 1 0, Sobel ext image1 0 1))) msk)
           (copyToMasked (scaleMat (1 / maxLoc (normedGradients ext (Sobel ext image2 1 0, Sobel ext image2 0 1)))
                            (normedGradients ext (Sobel ext image2 1 0, Sobel ext image2 0 1))) msk)
           msk"
proof -
  have irls: "deconvAlgoPSFSelection dd = IRLS \<longrightarrow>
      psfSelectionCall dd nid c = DeconvolveIRLS (floatImages dd LEFT) c (getMask (regionTree dd) nid LEFT)"
    by (simp add: psfSelectionCall_def)
  have fft: "deconvAlgoPSFSelection dd = FFT \<longrightarrow>
      psfSelectionCall dd nid c = DeconvolveFFT (floatImages dd LEFT) c
      \<and> callMask (psfSelectionCall dd nid c) = None"
    by (simp add: psfSelectionCall_def)
  have log: "calls (snd (snd (psfSelectionLoop ext nid candidates 0 2 0 dd)))
       = calls dd @ map (psfSelectionCall dd nid) candidates"
    using psfSelectionLoop_abstract [of dd dd ext nid candidates 0 2 0]
    by (cases "psfSelectionLoop ext nid candidates 0 2 0 dd") simp
  have latent: "candidateLatent ext dd nid c
       = map (map (\<lambda>v. 255 * min 1 (max 0 v))) (runCall ext (psfSelectionCall dd nid c))"
    by (simp add: candidateLatent_def clamp_scale)
  have energy: "candidateEnergy ext dd nid c
       = 1 - gradientCorrelation ext (candidateLatent ext dd nid c)
               (coherenceFilter ext (GaussianBlur ext (candidateLatent ext dd nid c)))
               (getMask (regionTree dd) nid LEFT)"
    by (simp add: candidateEnergy_def Let_def)
  have corr: "gradientCorrelation ext image1 image2 msk
       = crossCorrelation ext
           (copyToMasked (scaleMat (1 / maxLoc (normedGradients ext (Sobel ext image1 1 0, Sobel ext image1 0 1)))
                            (normedGradients ext (Sobel ext image1 1 0, Sobel ext image1 0 1))) msk)
           (copyToMasked (scaleMat (1 / maxLoc (normedGradients ext (Sobel ext image2 1 0, Sobel ext image2 0 1)))
                            (normedGradients ext (Sobel ext image2 1 0, Sobel ext image2 0 1))) msk)
           msk"
    by (simp add: gradientCorrelation_def Let_def)
  from irls fft log latent energy corr show ?thesis by blast
qed

theorem psfSelection_mask_only_for_IRLS_witness:
  "deconvAlgoPSFSelection (smallDeblur IRLS estimatedTree) = IRLS
   \<and> psfSelectionCall (smallDeblur IRLS estimatedTree) 0 [[1 / 255]] = DeconvolveIRLS [[1 / 2]] [[1 / 255]] [[1]]
   \<and> deconvAlgoPSFSelection (smallDeblur FFT estimatedTree) = FFT
   \<and> psfSelectionCall (smallDeblur FFT estimatedTree) 0 [[1 / 255]] = DeconvolveFFT [[1 / 2]] [[1 / 255]]"
proof -
  have a: "deconvAlgoPSFSelection (smallDeblur IRLS estimatedTree) = IRLS"
    and b: "deconvAlgoPSFSelection (smallDeblur FFT estimatedTree) = FFT"
    and f: "floatImages (smallDeblur IRLS estimatedTree) LEFT = [[1 / 2]]"
       "floatImages (smallDeblur FFT estimatedTree) LEFT = [[1 / 2]]"
    and m: "getMask (regionTree (smallDeblur IRLS estimatedTree)) 0 LEFT = [[1]]"
    by (simp_all add: smallDeblur_def estimatedTree_def smallTree_def)
  from psfSelection_mask_only_for_IRLS [of "smallDeblur IRLS estimatedTree" 0 "[[1 / 255]]"] a f m
  have c1: "psfSelectionCall (smallDeblur IRLS estimatedTree) 0 [[1 / 255]] = DeconvolveIRLS [[1 / 2]] [[1 / 255]] [[1]]"
    by simp
  from psfSelection_mask_only_for_IRLS [of "smallDeblur FFT estimatedTree" 0 "[[1 / 255]]"] b f
  have c2: "psfSelectionCall (smallDeblur FFT estimatedTree) 0 [[1 / 255]] = DeconvolveFFT [[1 / 2]] [[1 / 255]]"
    by simp
  from a b c1 c2 show ?thesis by blast
qed

text \<open>
  C7 as stated fails for the frequency-domain solver. Leaf 0 has the left mask
  \<open>[[1, 0]]\<close>, the first of two pixels; the two calls that \<^verbatim>\<open>psfSelection\<close> makes for
  two candidates of leaf 0 are calls of \<^verbatim>\<open>deconvolveFFT\<close> on the whole image and
  carry no mask.
\<close>

theorem psfSelection_FFT_ignores_mask_counterexample:
  "deconvAlgoPSFSelection halfMaskDeblur = FFT
   \<and> getMask (regionTree halfMaskDeblur) 0 LEFT = [[1, 0]]
   \<and> calls (snd (snd (psfSelectionLoop smallExt 0 [[[1 / 510]], [[1 / 255]]] 0 2 0 halfMaskDeblur)))
       = [DeconvolveFFT [[1 / 2, 1 / 4]] [[1 / 510]], DeconvolveFFT [[1 / 2, 1 / 4]] [[1 / 255]]]
   \<and> map callMask (calls (snd (snd (psfSelectionLoop smallExt 0 [[[1 / 510]], [[1 / 255]]] 0 2 0 halfMaskDeblur))))
       = [None, None]"
proof -
  have log: "calls (snd (snd (psfSelectionLoop smallExt 0 [[[1 / 510]], [[1 / 255]]] 0 2 0 halfMaskDeblur)))
       = calls halfMaskDeblur @ map (psfSelectionCall halfMaskDeblur 0) [[[1 / 510]], [[1 / 255]]]"
    using psfSelectionLoop_abstract [of halfMaskDeblur halfMaskDeblur smallExt 0
        "[[[1 / 510]], [[1 / 255]]]" 0 2 0]
    by (cases "psfSelectionLoop smallExt 0 [[[1 / 510]], [[1 / 255]]] 0 2 0 halfMaskDeblur") simp
  show ?thesis
    unfolding log
    by (simp add: psfSelectionCall_def halfMaskDeblur_def smallDeblur_def estimatedTree_def smallTree_def)
qed

subsection \<open>Reconstruction: the solver of \<^verbatim>\<open>deconvolveRegion\<close>\<close>

lemma deconvolveRegionCall_frame:
  assumes "regionTree dd' = regionTree dd" and "images dd' = images dd" and "floatImages dd' = floatImages dd"
    and "pixels dd' = pixels dd"
  shows "deconvolveRegionCall dd' v color i = deconvolveRegionCall dd v color i"
  unfolding deconvolveRegionCall_def psfValue_def deref_def assms ..

lemma deconvolveRegionLoop_calls:
  "regionTree dd = regionTree dd0 \<Longrightarrow> images dd = images dd0 \<Longrightarrow> floatImages dd = floatImages dd0 \<Longrightarrow>
   pixels dd = pixels dd0 \<Longrightarrow>
   calls (deconvolveRegionLoop ext v color st dd) = calls dd @ map (deconvolveRegionCall dd0 v color) st"
proof (induction st arbitrary: dd)
  case Nil
  then show ?case by simp
next
  case (Cons i st)
  let ?dd1 = "deconvolveRegionBody ext v color i (dd\<lparr>regionStack := st\<rparr>)"
  have c: "deconvolveRegionCall (dd\<lparr>regionStack := st\<rparr>) v color i = deconvolveRegionCall dd0 v color i"
    using Cons.prems by (intro deconvolveRegionCall_frame) simp_all
  have f: "regionTree ?dd1 = regionTree dd0" "images ?dd1 = images dd0" "floatImages ?dd1 = floatImages dd0"
    "pixels ?dd1 = pixels dd0"
    using Cons.prems by (simp_all add: deconvolveRegionBody_def Let_def)
  have l: "calls ?dd1 = calls dd @ [deconvolveRegionCall dd0 v color i]"
    using c by (simp add: deconvolveRegionBody_def Let_def)
  from Cons.IH [OF f] l show ?case by simp
qed

lemma deconvolveRegionBody_algo:
  "deconvolveRegionBody ext v color i (dd\<lparr>deconvAlgoPSFSelection := a\<rparr>)
   = (deconvolveRegionBody ext v color i dd)\<lparr>deconvAlgoPSFSelection := a\<rparr>"
  by (simp add: deconvolveRegionBody_def deconvolveRegionCall_def psfValue_updates Let_def)



lemma pushAll_rev: "pushAll xs st = rev xs @ st"
  unfolding pushAll_def by (induction xs arbitrary: st) simp_all

lemma deconvolveRegions_calls:
  "calls (deconvolveRegions ext v color (dd\<lparr>regionDeconv := cache\<rparr>))
     = calls dd @ map (deconvolveRegionCall dd v color) (rev (map int [0 ..< nat (layers dd)]) @ regionStack dd)"
  unfolding deconvolveRegions_def deconvolveRegion_def Let_def
  by (subst deconvolveRegionLoop_calls [where ?dd0.0 = dd]) (simp_all add: pushAll_rev)

text \<open>
  C6 against the code. Whatever \<^verbatim>\<open>regionDeconv\<close> holds when the reconstruction
  starts, every region \<open>0 .. layers - 1\<close> is deconvolved again by the iterative solver.
  In the example \<^verbatim>\<open>psfSelection\<close> under the iterative solver stores the latent image
  of leaf 0 in \<^verbatim>\<open>regionDeconv[0]\<close>; the reconstruction that follows calls the solver
  for leaf 0 all the same and overwrites the stored image.
\<close>

theorem deconvolveRegions_recomputes_cached_latent:
  "calls (deconvolveRegions ext v color (dd\<lparr>regionDeconv := cache\<rparr>))
     = calls dd @ map (deconvolveRegionCall dd v color) (rev (map int [0 ..< nat (layers dd)]) @ regionStack dd)
   \<and> regionDeconv (snd (the (psfSelection smallExt ((smallDeblur IRLS estimatedTree)\<lparr>regionDeconv := [[], []]\<rparr>)
                               [[[1 / 510]], [[1 / 255]]] 0)))
       = [[[1 / 2]], []]
   \<and> calls (deconvolveRegions smallExt LEFT False
              ((smallDeblur IRLS estimatedTree)\<lparr>regionDeconv := [[[1 / 2]], []]\<rparr>))
       = [DeconvolveIRLS [[1 / 2]] [[1 / 255]] [[1]], DeconvolveIRLS [[1 / 2]] [[1 / 510]] [[1]]]
   \<and> regionDeconv (deconvolveRegions smallExt LEFT False
              ((smallDeblur IRLS estimatedTree)\<lparr>regionDeconv := [[[1 / 2]], []]\<rparr>))
       = [[[0]], [[0]]]"
proof -
  have general: "calls (deconvolveRegions ext v color (dd\<lparr>regionDeconv := cache\<rparr>))
     = calls dd @ map (deconvolveRegionCall dd v color) (rev (map int [0 ..< nat (layers dd)]) @ regionStack dd)"
    by (rule deconvolveRegions_calls)
  let ?dd = "smallDeblur IRLS estimatedTree"
  have e0: "candidateEnergy smallExt (?dd\<lparr>regionDeconv := [[], []]\<rparr>) 0 [[1 / 510]] = 3 / 4"
    using candidateEnergy_frame [of "?dd\<lparr>regionDeconv := [[], []]\<rparr>" ?dd smallExt 0 "[[1 / 510]]"]
    by (simp add: ex_energy0)
  have cache: "regionDeconv (snd (the (psfSelection smallExt (?dd\<lparr>regionDeconv := [[], []]\<rparr>)
                               [[[1 / 510]], [[1 / 255]]] 0)))
       = [[[1 / 2]], []]"
    apply (simp add: psfSelection_def Let_def e0)
    apply (simp add: candidateEnergy_def candidateLatent_def psfSelectionCall_def smallExt_def smallDeblur_def
      estimatedTree_def smallTree_def gradientCorrelation_def scaleMat_def thresholdTrunc_def thresholdToZero_def
      copyToMasked_def maxLoc_def vecSet_def Let_def)
    done
  have again: "calls (deconvolveRegions smallExt LEFT False (?dd\<lparr>regionDeconv := [[[1 / 2]], []]\<rparr>))
       = [DeconvolveIRLS [[1 / 2]] [[1 / 255]] [[1]], DeconvolveIRLS [[1 / 2]] [[1 / 510]] [[1]]]"
    unfolding deconvolveRegions_calls
    by (simp add: deconvolveRegionCall_def psfValue_def deref_def smallPixels_def
        smallDeblur_def estimatedTree_def smallTree_def Let_def
        nat_numeral upt_rec [of 0] upt_rec [of 1] upt_rec [of "Suc 0"])
  have result: "regionDeconv (deconvolveRegions smallExt LEFT False (?dd\<lparr>regionDeconv := [[[1 / 2]], []]\<rparr>))
       = [[[0]], [[0]]]"
    by (simp add: deconvolveRegions_def deconvolveRegion_def deconvolveRegionBody_def deconvolveRegionCall_def
        psfValue_def deref_def smallPixels_def pushAll_def vecResize_def vecSet_def convertTo8U_def cvRound_def thresholdTrunc_def thresholdToZero_def
        scaleMat_def smallExt_def smallDeblur_def estimatedTree_def smallTree_def Let_def
        upt_rec [of 0] upt_rec [of 1] upt_rec [of "Suc 0"])
  from general cache again result show ?thesis by blast
qed

subsection \<open>Joint PSF estimation: the kernel in the frequency domain\<close>

lemma kernelBin_spec:
  "kernelBin xsr ysr xsm ysm xbr ybr xbm ybm d
   = specKernelBin (\<lambda>v. case v of LEFT \<Rightarrow> xsm | RIGHT \<Rightarrow> xsr) (\<lambda>v. case v of LEFT \<Rightarrow> ysm | RIGHT \<Rightarrow> ysr)
       (\<lambda>v. case v of LEFT \<Rightarrow> xbm | RIGHT \<Rightarrow> xbr) (\<lambda>v. case v of LEFT \<Rightarrow> ybm | RIGHT \<Rightarrow> ybr) 1 d"
proof -
  have w: "Complex 1 0 = 1" by (simp add: complex_eq_iff)
  show ?thesis
    unfolding kernelBin_def specKernelBin_def Let_def w
    by (simp add: ac_simps)
qed

lemma unitImpulse_nth:
  "i < r \<Longrightarrow> j < c \<Longrightarrow> unitImpulse r c ! i ! j = (if i = 0 \<and> j = 0 then 1 else 0)"
  by (simp add: unitImpulse_def)

text \<open>
  C1. At every bin \<open>(y, x)\<close> of the spectrum the entry of \<open>K\<close> that
  \<^verbatim>\<open>jointPSFEstimation\<close> computes is the quotient of the spec: the sum over both
  views of \<open>conj(Sx) * Bx + conj(Sy) * By\<close> over the sum over both views of
  \<open>conj(Sx) * Sx + conj(Sy) * Sy\<close> plus \<open>gamma * conj(D) * D\<close> with \<open>gamma = 1\<close>, where
  \<open>S\<close> are the transforms of the salient-edge gradients, \<open>B\<close> the transforms of the
  masked gradients of the blurred views and \<open>D\<close> the transform of the image that is 1
  at pixel \<open>(0, 0)\<close> and 0 elsewhere. The arithmetic is that of the complex numbers (the
  source rounds to \<^verbatim>\<open>complex<float>\<close>).
\<close>

theorem frequencyKernel_bin:
  "y < nrows (dft ext (fst salientEdgesLeft)) \<and> x < ncols (dft ext (fst salientEdgesLeft)) \<longrightarrow>
     frequencyKernel ext dd masks salientEdgesLeft salientEdgesRight ! y ! x
     = specKernelBin
         (\<lambda>v. dft ext (fst (case v of LEFT \<Rightarrow> salientEdgesLeft | RIGHT \<Rightarrow> salientEdgesRight)) ! y ! x)
         (\<lambda>v. dft ext (snd (case v of LEFT \<Rightarrow> salientEdgesLeft | RIGHT \<Rightarrow> salientEdgesRight)) ! y ! x)
         (\<lambda>v. dft ext (copyToMasked (fst (case v of LEFT \<Rightarrow> gradsLeft dd | RIGHT \<Rightarrow> gradsRight dd)) (masks v)) ! y ! x)
         (\<lambda>v. dft ext (copyToMasked (snd (case v of LEFT \<Rightarrow> gradsLeft dd | RIGHT \<Rightarrow> gradsRight dd)) (masks v)) ! y ! x)
         1
         (dft ext (unitImpulse (nrows (dft ext (fst salientEdgesLeft))) (ncols (dft ext (fst salientEdgesLeft)))) ! y ! x)
     \<and> unitImpulse (nrows (dft ext (fst salientEdgesLeft))) (ncols (dft ext (fst salientEdgesLeft))) ! y ! x
       = (if y = 0 \<and> x = 0 then 1 else 0)"
proof (intro impI conjI)
  assume h: "y < nrows (dft ext (fst salientEdgesLeft)) \<and> x < ncols (dft ext (fst salientEdgesLeft))"
  then have y: "y < nrows (dft ext (fst salientEdgesLeft))" and x: "x < ncols (dft ext (fst salientEdgesLeft))"
    by simp_all
  show "unitImpulse (nrows (dft ext (fst salientEdgesLeft))) (ncols (dft ext (fst salientEdgesLeft))) ! y ! x
       = (if y = 0 \<and> x = 0 then 1 else 0)"
    using y x by (rule unitImpulse_nth)
  show "frequencyKernel ext dd masks salientEdgesLeft salientEdgesRight ! y ! x
     = specKernelBin
         (\<lambda>v. dft ext (fst (case v of LEFT \<Rightarrow> salientEdgesLeft | RIGHT \<Rightarrow> salientEdgesRight)) ! y ! x)
         (\<lambda>v. dft ext (snd (case v of LEFT \<Rightarrow> salientEdgesLeft | RIGHT \<Rightarrow> salientEdgesRight)) ! y ! x)
         (\<lambda>v. dft ext (copyToMasked (fst (case v of LEFT \<Rightarrow> gradsLeft dd | RIGHT \<Rightarrow> gradsRight dd)) (masks v)) ! y ! x)
         (\<lambda>v. dft ext (copyToMasked (snd (case v of LEFT \<Rightarrow> gradsLeft dd | RIGHT \<Rightarrow> gradsRight dd)) (masks v)) ! y ! x)
         1
         (dft ext (unitImpulse (nrows (dft ext (fst salientEdgesLeft))) (ncols (dft ext (fst salientEdgesLeft)))) ! y ! x)"
    using y x
    by (simp add: frequencyKernel_def Let_def kernelBin_spec specKernelBin_def)
qed

theorem frequencyKernel_bin_witness:
  "0 < nrows (dft smallExt (fst ([[2]], [[1]]))) \<and> 0 < ncols (dft smallExt (fst ([[2]], [[1]])))
   \<and> frequencyKernel smallExt (smallDeblur FFT initialTree) (\<lambda>v. [[1]]) ([[2]], [[1]]) ([[2]], [[1]]) ! 0 ! 0 = 6 / 11"
proof -
  have h: "0 < nrows (dft smallExt (fst ([[2]], [[1 :: real]]))) \<and> 0 < ncols (dft smallExt (fst ([[2]], [[1 :: real]])))"
    by (simp add: smallExt_def nrows_def ncols_def)
  have d: "dft smallExt = map (map complex_of_real)" by (simp add: smallExt_def)
  from frequencyKernel_bin [of 0 smallExt "([[2]], [[1]])" 0 "smallDeblur FFT initialTree" "\<lambda>v. [[1]]" "([[2]], [[1]])"] h
  have "frequencyKernel smallExt (smallDeblur FFT initialTree) (\<lambda>v. [[1]]) ([[2]], [[1]]) ([[2]], [[1]]) ! 0 ! 0 = 6 / 11"
    by (simp add: specKernelBin_def d smallDeblur_def copyToMasked_def unitImpulse_def nrows_def ncols_def)
  with h show ?thesis by simp
qed

subsection \<open>Joint PSF estimation: from the inverse transform to the kernel\<close>

lemma isMatrix_thresholdToZero: "isMatrix m \<Longrightarrow> isMatrix (thresholdToZero t m)"
  by (cases m) (auto simp: isMatrix_def thresholdToZero_def ncols_def)

lemma dims_thresholdToZero: "nrows (thresholdToZero t m) = nrows m" "ncols (thresholdToZero t m) = ncols m"
  by (cases m; simp add: thresholdToZero_def nrows_def ncols_def)+

lemma isMatrix_row: "isMatrix m \<Longrightarrow> i < nrows m \<Longrightarrow> length (m ! i) = ncols m"
  by (simp add: isMatrix_def nrows_def)

lemma roi_Inr:
  "roi m x y w h = Inr q \<Longrightarrow>
     0 \<le> x \<and> 0 \<le> w \<and> x + w \<le> int (ncols m) \<and> 0 \<le> y \<and> 0 \<le> h \<and> y + h \<le> int (nrows m)
     \<and> q = (if w = 0 \<or> h = 0 then [] else map (\<lambda>r. take (nat w) (drop (nat x) r)) (take (nat h) (drop (nat y) m)))"
  by (auto simp: roi_def split: if_splits)

lemma hconcat_Inr:
  "hconcat a b = Inr c \<Longrightarrow> a \<noteq> [] \<and> b \<noteq> [] \<and> nrows a = nrows b \<and> c = map (\<lambda>(ra, rb). ra @ rb) (zip a b)"
  by (auto simp: hconcat_def split: if_splits)

lemma vconcat_Inr:
  "vconcat a b = Inr c \<Longrightarrow> a \<noteq> [] \<and> b \<noteq> [] \<and> ncols a = ncols b \<and> c = a @ b"
  by (auto simp: vconcat_def split: if_splits)

lemma zip_map_same: "map (\<lambda>(ra, rb). ra @ rb) (zip (map f xs) (map g xs)) = map (\<lambda>r. f r @ g r) xs"
  by (induction xs) simp_all

lemma swapSlices_Inr:
  assumes ok: "swapSlices width m = Inr sw" and mat: "isMatrix m"
  defines "hs \<equiv> nat (cdiv (width - 1) 2)"
  shows "0 < hs \<and> hs < ncols m \<and> hs < nrows m \<and> int hs = cdiv (width - 1) 2
         \<and> sw = map (rotate (ncols m - hs)) (rotate (nrows m - hs) m)"
proof -
  let ?x = "int (ncols m)" and ?y = "int (nrows m)" and ?h = "cdiv (width - 1) 2"
  from ok obtain q0 q1 q2 q3 ks tmp where
    q0: "roi m 0 0 (?x - ?h) (?y - ?h) = Inr q0" and
    q1: "roi m (?x - ?h) 0 ?h (?y - ?h) = Inr q1" and
    q2: "roi m 0 (?y - ?h) (?x - ?h) ?h = Inr q2" and
    q3: "roi m (?x - ?h) (?y - ?h) ?h ?h = Inr q3" and
    h1: "hconcat q3 q2 = Inr ks" and
    h2: "hconcat q1 q0 = Inr tmp" and
    v: "vconcat ks tmp = Inr sw"
    by (auto simp: swapSlices_def Let_def split: sum.splits)
  note r0 = roi_Inr [OF q0] and r1 = roi_Inr [OF q1] and r2 = roi_Inr [OF q2] and r3 = roi_Inr [OF q3]
  note c1 = hconcat_Inr [OF h1] and c2 = hconcat_Inr [OF h2] and c3 = vconcat_Inr [OF v]
  from r1 have hge: "0 \<le> ?h" by simp
  from r0 have hx: "?h \<le> ?x" and hy: "?h \<le> ?y" by simp_all
  from c1 r3 have hne: "?h \<noteq> 0" by auto
  from c1 r2 have xne: "?x - ?h \<noteq> 0" by auto
  from c2 r1 have yne: "?y - ?h \<noteq> 0" by auto
  have hs: "int hs = ?h" using hge by (simp add: hs_def)
  have pos: "0 < hs" "hs < ncols m" "hs < nrows m"
    using hs hne xne yne hx hy by linarith+
  have nx: "nat (?x - ?h) = ncols m - hs" and ny: "nat (?y - ?h) = nrows m - hs"
    using hs by linarith+
  have nh: "nat ?h = hs" using hs by simp
  have lenm: "length m = nrows m" by (simp add: nrows_def)
  have rows: "\<And>r. r \<in> set m \<Longrightarrow> length r = ncols m" using mat by (simp add: isMatrix_def)
  have f3: "q3 = map (\<lambda>r. drop (ncols m - hs) r) (drop (nrows m - hs) m)"
  proof -
    from r3 hne have "q3 = map (\<lambda>r. take hs (drop (ncols m - hs) r)) (take hs (drop (nrows m - hs) m))"
      by (simp add: nx ny nh)
    moreover have "take hs (drop (nrows m - hs) m) = drop (nrows m - hs) m"
      using pos lenm by simp
    moreover have "\<And>r. r \<in> set (drop (nrows m - hs) m) \<Longrightarrow> take hs (drop (ncols m - hs) r) = drop (ncols m - hs) r"
      using rows pos by (auto dest!: in_set_dropD)
    ultimately show ?thesis by simp
  qed
  have f2: "q2 = map (\<lambda>r. take (ncols m - hs) r) (drop (nrows m - hs) m)"
  proof -
    from r2 hne xne have "q2 = map (\<lambda>r. take (ncols m - hs) (drop 0 r)) (take hs (drop (nrows m - hs) m))"
      by (simp add: nx ny nh)
    moreover have "take hs (drop (nrows m - hs) m) = drop (nrows m - hs) m"
      using pos lenm by simp
    ultimately show ?thesis by simp
  qed
  have f1: "q1 = map (\<lambda>r. drop (ncols m - hs) r) (take (nrows m - hs) m)"
  proof -
    from r1 hne yne have "q1 = map (\<lambda>r. take hs (drop (ncols m - hs) r)) (take (nrows m - hs) (drop 0 m))"
      by (simp add: nx ny nh)
    moreover have "\<And>r. r \<in> set (take (nrows m - hs) m) \<Longrightarrow> take hs (drop (ncols m - hs) r) = drop (ncols m - hs) r"
      using rows pos by (auto dest!: in_set_takeD)
    ultimately show ?thesis by simp
  qed
  have f0: "q0 = map (\<lambda>r. take (ncols m - hs) r) (take (nrows m - hs) m)"
    using r0 xne yne by (simp add: nx ny)
  have rot: "\<And>r. r \<in> set m \<Longrightarrow> drop (ncols m - hs) r @ take (ncols m - hs) r = rotate (ncols m - hs) r"
    using rows pos by (simp add: rotate_drop_take)
  have ks: "ks = map (rotate (ncols m - hs)) (drop (nrows m - hs) m)"
    using c1 f3 f2 rot by (auto simp: zip_map_same dest!: in_set_dropD)
  have tmp: "tmp = map (rotate (ncols m - hs)) (take (nrows m - hs) m)"
    using c2 f1 f0 rot by (auto simp: zip_map_same dest!: in_set_takeD)
  have "sw = map (rotate (ncols m - hs)) (drop (nrows m - hs) m @ take (nrows m - hs) m)"
    using c3 ks tmp by simp
  also have "drop (nrows m - hs) m @ take (nrows m - hs) m = rotate (nrows m - hs) m"
    using pos lenm by (simp add: rotate_drop_take)
  finally show ?thesis using pos hs by simp
qed

lemma sum_list_nth_lessThan: "sum_list xs = (\<Sum>i < length xs. xs ! i)"
  by (simp add: sum_list_sum_nth lessThan_atLeast0)

lemma sum_list_concat_rows: "sum_list (concat m) = sum_list (map sum_list m)"
  by (induction m) simp_all

lemma sum_list_divide_rows: "sum_list (map (\<lambda>v. v / s) r) = sum_list r / (s :: real)"
  by (induction r) (simp_all add: add_divide_distrib)

lemma sumMat_nth:
  assumes "length m = n" and "\<And>i. i < n \<Longrightarrow> length (m ! i) = c"
  shows "sumMat m = (\<Sum>i < n. \<Sum>j < c. m ! i ! j)"
proof -
  have "sumMat m = sum_list (map sum_list m)" by (simp add: sumMat_def sum_list_concat_rows)
  also have "\<dots> = (\<Sum>i < n. sum_list (m ! i))"
    using assms(1) by (simp add: sum_list_nth_lessThan)
  also have "\<dots> = (\<Sum>i < n. \<Sum>j < c. m ! i ! j)"
    using assms(2) by (intro sum.cong refl) (simp add: sum_list_nth_lessThan)
  finally show ?thesis .
qed

lemma sumMat_scale: "sumMat (map (map (\<lambda>v. v / s)) m) = sumMat m / s"
proof -
  have row: "\<And>r :: real list. sum_list (map (\<lambda>v. v / s) r) = sum_list r / s"
    by (rule sum_list_divide_rows)
  have "sum_list (map sum_list (map (map (\<lambda>v. v / s)) m)) = sum_list (map (\<lambda>r. sum_list r / s) m)"
    by (simp add: comp_def row)
  also have "\<dots> = sum_list (map sum_list m) / s"
    by (induction m) (simp_all add: add_divide_distrib)
  finally show ?thesis by (simp add: sumMat_def sum_list_concat_rows)
qed

lemma recentred_nonneg: "0 \<le> recentred width kern i j"
  by (simp add: recentred_def Let_def)

lemma kernelFromInverse_Inr:
  assumes ok: "kernelFromInverse width kern0 = Inr p" and mat: "isMatrix kern0"
  shows "length p = nat width \<and> (\<forall>i < nat width. length (p ! i) = nat width)
         \<and> 3 \<le> width \<and> width \<le> int (ncols kern0) \<and> width \<le> int (nrows kern0)
         \<and> (\<forall>i < nat width. \<forall>j < nat width. p ! i ! j = recentred width kern0 i j / croppedSum width kern0)"
proof -
  let ?k = "thresholdToZero 0 kern0"
  let ?hs = "nat (cdiv (width - 1) 2)"
  let ?x = "ncols kern0" and ?y = "nrows kern0"
  let ?w = "nat width"
  from ok obtain sw crop where
    sw: "swapSlices width ?k = Inr sw" and
    crop: "roi sw 0 0 width width = Inr crop" and
    p: "p = map (map (\<lambda>v. v / sumMat crop)) crop"
    by (auto simp: kernelFromInverse_def Let_def split: sum.splits)
  have kmat: "isMatrix ?k" using mat by (rule isMatrix_thresholdToZero)
  from swapSlices_Inr [OF sw kmat]
  have hs0: "0 < ?hs" and hsx: "?hs < ?x" and hsy: "?hs < ?y" and hsi: "int ?hs = cdiv (width - 1) 2"
    and swv: "sw = map (rotate (?x - ?hs)) (rotate (?y - ?hs) ?k)"
    by (simp_all add: dims_thresholdToZero)
  have w3: "3 \<le> width"
  proof (rule ccontr)
    assume "\<not> 3 \<le> width"
    then have "cdiv (width - 1) 2 \<le> 0" by (auto simp: cdiv_def)
    with hs0 show False by simp
  qed
  have klen: "length ?k = ?y" by (simp add: thresholdToZero_def nrows_def)
  have krow: "\<And>a. a < ?y \<Longrightarrow> length (?k ! a) = ?x"
    using isMatrix_row [OF kmat] by (simp add: dims_thresholdToZero)
  have kval: "\<And>a b. a < ?y \<Longrightarrow> b < ?x \<Longrightarrow> ?k ! a ! b = max 0 (kern0 ! a ! b)"
  proof -
    fix a b assume a: "a < ?y" and b: "b < ?x"
    have "length (kern0 ! a) = ?x" using isMatrix_row [OF mat a] .
    with a b show "?k ! a ! b = max 0 (kern0 ! a ! b)"
      by (simp add: thresholdToZero_def nrows_def max_def)
  qed
  have swlen: "length sw = ?y" using swv klen by simp
  have swrow: "\<And>i. i < ?y \<Longrightarrow> sw ! i = rotate (?x - ?hs) (?k ! ((?y - ?hs + i) mod ?y))"
    using swv klen by (simp add: nth_rotate)
  have swrowlen: "\<And>i. i < ?y \<Longrightarrow> length (sw ! i) = ?x"
    using swrow krow by simp
  have swval: "\<And>i j. i < ?y \<Longrightarrow> j < ?x \<Longrightarrow> sw ! i ! j = recentred width kern0 i j"
  proof -
    fix i j assume i: "i < ?y" and j: "j < ?x"
    let ?a = "(?y - ?hs + i) mod ?y" and ?b = "(?x - ?hs + j) mod ?x"
    have a: "?a < ?y" using i by simp
    have b: "?b < ?x" using j by simp
    have "sw ! i ! j = ?k ! ?a ! ?b"
      using swrow [OF i] krow [OF a] j by (simp add: nth_rotate)
    also have "\<dots> = max 0 (kern0 ! ?a ! ?b)" using kval [OF a b] .
    finally show "sw ! i ! j = recentred width kern0 i j" by (simp add: recentred_def Let_def)
  qed
  have swnc: "ncols sw = ?x"
  proof -
    have "sw \<noteq> []" using swlen hsy by auto
    then obtain r rs where c: "sw = r # rs" by (cases sw) auto
    have "length (sw ! 0) = ?x" using swrowlen [of 0] hsy by simp
    with c show ?thesis by (simp add: ncols_def)
  qed
  have swnr: "nrows sw = ?y" using swlen by (simp add: nrows_def)
  from roi_Inr [OF crop] w3
  have wx: "width \<le> int ?x" and wy: "width \<le> int ?y"
    and cropv: "crop = map (\<lambda>r. take ?w (drop (nat 0) r)) (take ?w (drop (nat 0) sw))"
    by (simp_all add: swnc swnr)
  have wxn: "?w \<le> ?x" and wyn: "?w \<le> ?y" using wx wy by linarith+
  have croplen: "length crop = ?w" using cropv swlen wyn by simp
  have cropval: "\<And>i j. i < ?w \<Longrightarrow> j < ?w \<Longrightarrow> crop ! i ! j = recentred width kern0 i j"
    using cropv swlen wyn wxn swval by simp
  have croprow: "\<And>i. i < ?w \<Longrightarrow> length (crop ! i) = ?w"
    using cropv swlen wyn wxn swrowlen by simp
  have "sumMat crop = (\<Sum>i < ?w. \<Sum>j < ?w. crop ! i ! j)"
    using croplen croprow by (rule sumMat_nth)
  also have "\<dots> = croppedSum width kern0"
    unfolding croppedSum_def by (intro sum.cong refl) (simp add: cropval)
  finally have s: "sumMat crop = croppedSum width kern0" .
  have plen: "length p = ?w" using p croplen by simp
  have prow: "\<forall>i < ?w. length (p ! i) = ?w" using p croplen croprow by simp
  have pval: "\<forall>i < ?w. \<forall>j < ?w. p ! i ! j = recentred width kern0 i j / croppedSum width kern0"
    using p croplen croprow cropval s by simp
  from plen prow w3 wx wy pval show ?thesis by blast
qed

lemma ncols_rows: "xs \<noteq> [] \<Longrightarrow> (\<forall>r \<in> set xs. length r = c) \<Longrightarrow> ncols xs = c"
  by (cases xs) (simp_all add: ncols_def)

lemma swapSlices_succeeds:
  assumes mat: "isMatrix m" and w3: "3 \<le> width" and wx: "width \<le> int (ncols m)" and wy: "width \<le> int (nrows m)"
  shows "\<exists>sw. swapSlices width m = Inr sw"
proof -
  let ?x = "int (ncols m)" and ?y = "int (nrows m)" and ?h = "cdiv (width - 1) 2"
  define hs where "hs = nat ?h"
  have h: "?h = (width - 1) div 2" using w3 by (simp add: cdiv_def)
  have hpos: "0 < ?h" and hw: "?h < width" using w3 h by linarith+
  have hs: "int hs = ?h" using hpos by (simp add: hs_def)
  have pos: "0 < hs" "hs < ncols m" "hs < nrows m" using hs hpos hw wx wy by linarith+
  have nx: "nat (?x - ?h) = ncols m - hs" and ny: "nat (?y - ?h) = nrows m - hs" and nh: "nat ?h = hs"
    using hs by linarith+
  have lenm: "length m = nrows m" by (simp add: nrows_def)
  have rows: "\<And>r. r \<in> set m \<Longrightarrow> length r = ncols m" using mat by (simp add: isMatrix_def)
  let ?bot = "take hs (drop (nrows m - hs) m)" and ?top = "take (nrows m - hs) m"
  let ?q0 = "map (take (ncols m - hs)) ?top"
  let ?q1 = "map (\<lambda>r. take hs (drop (ncols m - hs) r)) ?top"
  let ?q2 = "map (take (ncols m - hs)) ?bot"
  let ?q3 = "map (\<lambda>r. take hs (drop (ncols m - hs) r)) ?bot"
  have q0: "roi m 0 0 (?x - ?h) (?y - ?h) = Inr ?q0"
    using pos hs by (simp add: roi_def nx ny)
  have q1: "roi m (?x - ?h) 0 ?h (?y - ?h) = Inr ?q1"
    using pos hs by (simp add: roi_def nx ny nh)
  have q2: "roi m 0 (?y - ?h) (?x - ?h) ?h = Inr ?q2"
    using pos hs by (simp add: roi_def nx ny nh)
  have q3: "roi m (?x - ?h) (?y - ?h) ?h ?h = Inr ?q3"
    using pos hs by (simp add: roi_def nx ny nh)
  have botne: "?bot \<noteq> []" and topne: "?top \<noteq> []" using pos lenm by auto
  let ?ks = "map (\<lambda>(ra, rb). ra @ rb) (zip ?q3 ?q2)" and ?tmp = "map (\<lambda>(ra, rb). ra @ rb) (zip ?q1 ?q0)"
  have h1: "hconcat ?q3 ?q2 = Inr ?ks" using botne by (simp add: hconcat_def nrows_def)
  have h2: "hconcat ?q1 ?q0 = Inr ?tmp" using topne by (simp add: hconcat_def nrows_def)
  have ksne: "?ks \<noteq> []" and tmpne: "?tmp \<noteq> []" using botne topne by simp_all
  have ksrows: "\<forall>r \<in> set ?ks. length r = ncols m"
    using rows pos by (auto simp: zip_map_same dest!: in_set_takeD in_set_dropD)
  have tmprows: "\<forall>r \<in> set ?tmp. length r = ncols m"
    using rows pos by (auto simp: zip_map_same dest!: in_set_takeD)
  have "ncols ?ks = ncols ?tmp"
    using ncols_rows [OF ksne ksrows] ncols_rows [OF tmpne tmprows] by simp
  then have v: "vconcat ?ks ?tmp = Inr (?ks @ ?tmp)"
    using ksne tmpne by (simp add: vconcat_def)
  show ?thesis
    unfolding swapSlices_def Let_def q0 q1 q2 q3 by (simp add: h1 h2 v)
qed

lemma kernelFromInverse_succeeds:
  assumes mat: "isMatrix kern0" and w3: "3 \<le> width" and wx: "width \<le> int (ncols kern0)"
    and wy: "width \<le> int (nrows kern0)"
  shows "\<exists>p. kernelFromInverse width kern0 = Inr p"
proof -
  let ?k = "thresholdToZero 0 kern0"
  have kmat: "isMatrix ?k" using mat by (rule isMatrix_thresholdToZero)
  from swapSlices_succeeds [OF kmat w3] wx wy obtain sw where sw: "swapSlices width ?k = Inr sw"
    by (auto simp: dims_thresholdToZero)
  from swapSlices_Inr [OF sw kmat]
  have hsy: "nat (cdiv (width - 1) 2) < nrows kern0"
    and swv: "sw = map (rotate (ncols kern0 - nat (cdiv (width - 1) 2))) (rotate (nrows kern0 - nat (cdiv (width - 1) 2)) ?k)"
    by (simp_all add: dims_thresholdToZero)
  have klen: "length ?k = nrows kern0" by (simp add: thresholdToZero_def nrows_def)
  have swnr: "nrows sw = nrows kern0" using swv klen by (simp add: nrows_def)
  have swne: "sw \<noteq> []" using swnr hsy by (auto simp: nrows_def)
  have "\<forall>r \<in> set sw. length r = ncols kern0"
    using swv kmat by (auto simp: isMatrix_def dims_thresholdToZero)
  then have swnc: "ncols sw = ncols kern0" using swne by (intro ncols_rows) simp_all
  have "\<exists>crop. roi sw 0 0 width width = Inr crop"
    using w3 wx wy by (simp add: roi_def swnr swnc)
  then obtain crop where crop: "roi sw 0 0 width width = Inr crop" by blast
  show ?thesis by (simp add: kernelFromInverse_def Let_def sw crop)
qed

lemma croppedSum_nonneg: "0 \<le> croppedSum width kern"
  unfolding croppedSum_def by (intro sum_nonneg recentred_nonneg)

text \<open>
  C2. After the inverse transform \<^verbatim>\<open>jointPSFEstimation\<close> zeroes the negative
  entries, swaps the four slices, cuts the window of \<open>psfWidth\<close> by \<open>psfWidth\<close> and
  divides by the sum of the window. When it returns, the kernel has \<open>psfWidth\<close> rows
  and columns, its entry \<open>(i, j)\<close> is the non-negative part of the inverse transform
  at row \<open>i - hs\<close> and column \<open>j - hs\<close> (cyclically) over the sum of the window, every
  entry is at least 0, and the entries sum to 1 whenever the sum of the window is not
  zero. It does return for an inverse transform of at least \<open>psfWidth\<close> rows and
  columns and a width of at least 3; otherwise an OpenCV assertion fails. (Over the
  reals the sum is exactly 1; the source rounds to \<^verbatim>\<open>float\<close>.)
\<close>

theorem jointPSFEstimation_kernel_normalised:
  "jointPSFEstimation ext dd masks salientEdgesLeft salientEdgesRight
     = kernelFromInverse (psfWidth dd) (idft ext (frequencyKernel ext dd masks salientEdgesLeft salientEdgesRight))
   \<and> (kernelFromInverse width kern0 = Inr p \<and> isMatrix kern0 \<longrightarrow>
        length p = nat width \<and> (\<forall>i < nat width. length (p ! i) = nat width)
        \<and> (\<forall>i < nat width. \<forall>j < nat width. p ! i ! j = recentred width kern0 i j / croppedSum width kern0)
        \<and> (\<forall>v \<in> set (concat p). 0 \<le> v)
        \<and> (croppedSum width kern0 \<noteq> 0 \<longrightarrow> sumMat p = 1))
   \<and> (isMatrix kern0 \<and> 3 \<le> width \<and> width \<le> int (ncols kern0) \<and> width \<le> int (nrows kern0) \<longrightarrow>
        (\<exists>q. kernelFromInverse width kern0 = Inr q))"
proof (intro conjI impI)
  show "jointPSFEstimation ext dd masks salientEdgesLeft salientEdgesRight
     = kernelFromInverse (psfWidth dd) (idft ext (frequencyKernel ext dd masks salientEdgesLeft salientEdgesRight))"
    by (simp add: jointPSFEstimation_def)
next
  assume "isMatrix kern0 \<and> 3 \<le> width \<and> width \<le> int (ncols kern0) \<and> width \<le> int (nrows kern0)"
  then show "\<exists>q. kernelFromInverse width kern0 = Inr q"
    using kernelFromInverse_succeeds by blast
next
  assume h: "kernelFromInverse width kern0 = Inr p \<and> isMatrix kern0"
  let ?w = "nat width"
  from h have ok: "kernelFromInverse width kern0 = Inr p" and mat: "isMatrix kern0" by simp_all
  from kernelFromInverse_Inr [OF ok mat]
  have len: "length p = ?w" and row: "\<forall>i < ?w. length (p ! i) = ?w"
    and val: "\<forall>i < ?w. \<forall>j < ?w. p ! i ! j = recentred width kern0 i j / croppedSum width kern0"
    by blast+
  show "length p = ?w" by (rule len)
  show "\<forall>i < ?w. length (p ! i) = ?w" by (rule row)
  show "\<forall>i < ?w. \<forall>j < ?w. p ! i ! j = recentred width kern0 i j / croppedSum width kern0" by (rule val)
  show "\<forall>v \<in> set (concat p). 0 \<le> v"
  proof
    fix v assume "v \<in> set (concat p)"
    then obtain r where r: "r \<in> set p" and v: "v \<in> set r" by auto
    from r obtain i where i: "i < length p" and ri: "r = p ! i" by (auto simp: in_set_conv_nth)
    from v obtain j where j: "j < length r" and vj: "v = r ! j" by (auto simp: in_set_conv_nth)
    have iw: "i < ?w" using i len by simp
    have jw: "j < ?w" using j ri row iw by simp
    have "v = recentred width kern0 i j / croppedSum width kern0" using val iw jw vj ri by simp
    then show "0 \<le> v" using recentred_nonneg croppedSum_nonneg by simp
  qed
  assume ne: "croppedSum width kern0 \<noteq> 0"
  have "sumMat p = (\<Sum>i < ?w. \<Sum>j < ?w. p ! i ! j)"
    using len row by (intro sumMat_nth) simp_all
  also have "\<dots> = (\<Sum>i < ?w. \<Sum>j < ?w. recentred width kern0 i j / croppedSum width kern0)"
    using val by (intro sum.cong refl) simp
  also have "\<dots> = (\<Sum>i < ?w. \<Sum>j < ?w. recentred width kern0 i j) / croppedSum width kern0"
    by (simp only: sum_divide_distrib)
  also have "\<dots> = croppedSum width kern0 / croppedSum width kern0"
    by (simp only: croppedSum_def)
  finally show "sumMat p = 1" using ne by simp
qed

lemma cornerKernel_threshold: "thresholdToZero 0 cornerKernel = [[4, 1, 1], [1, 0, 0], [1, 0, 1]]"
  by (simp add: thresholdToZero_def cornerKernel_def)

lemma cornerKernel_swap: "swapSlices 3 [[4, 1, 1], [1, 0, 0], [1, 0, 1]] = Inr [[1, 1, 0], [1, 4, 1], [0, 1, 0]]"
  by (simp add: swapSlices_def roi_def hconcat_def vconcat_def cdiv_def nrows_def ncols_def Let_def)

lemma cornerKernel_roi: "roi [[1, 1, 0], [1, 4, 1], [0, 1, 0]] 0 0 3 3 = Inr [[1, 1, 0], [1, 4, 1], [0, 1, 0]]"
  by (simp add: roi_def nrows_def ncols_def)

lemma cornerKernel_result:
  "kernelFromInverse 3 cornerKernel = Inr [[1 / 9, 1 / 9, 0], [1 / 9, 4 / 9, 1 / 9], [0, 1 / 9, 0]]"
  by (simp add: kernelFromInverse_def cornerKernel_threshold cornerKernel_swap cornerKernel_roi sumMat_def)

lemma cornerKernel_matrix: "isMatrix cornerKernel"
  by (simp add: isMatrix_def cornerKernel_def ncols_def)

lemma three: "{..< nat 3} = {0, 1, 2}"
  by auto

lemma cornerKernel_sum: "croppedSum 3 cornerKernel = 9"
  unfolding croppedSum_def three
  by (simp add: recentred_def cornerKernel_def cdiv_def nrows_def ncols_def Let_def)

theorem jointPSFEstimation_kernel_normalised_witness:
  "kernelFromInverse 3 cornerKernel = Inr [[1 / 9, 1 / 9, 0], [1 / 9, 4 / 9, 1 / 9], [0, 1 / 9, 0]]
   \<and> isMatrix cornerKernel
   \<and> croppedSum 3 cornerKernel = 9
   \<and> sumMat [[1 / 9, 1 / 9, 0], [1 / 9, 4 / 9, 1 / 9], [0, 1 / 9, 0]] = 1"
proof -
  have ne: "croppedSum 3 cornerKernel \<noteq> 0" by (simp add: cornerKernel_sum)
  from jointPSFEstimation_kernel_normalised
    [where width = 3 and ?kern0.0 = cornerKernel and p = "[[1 / 9, 1 / 9, 0], [1 / 9, 4 / 9, 1 / 9], [0, 1 / 9, 0]]"]
    cornerKernel_result cornerKernel_matrix ne
  have "sumMat [[1 / 9, 1 / 9, 0], [1 / 9, 4 / 9, 1 / 9], [0, 1 / 9, 0]] = 1" by blast
  with cornerKernel_result cornerKernel_matrix cornerKernel_sum show ?thesis by blast
qed

subsection \<open>The first pass: a child inherits or is estimated\<close>

lemma psfValue_copyToPsf: "psfValue (copyToPsf c v dd) c = v"
  by (simp add: copyToPsf_def freshPsf_def assignPsf_def psfValue_def deref_def split: option.split)

lemma jointPSFEstimation_frame:
  assumes "psfWidth dd' = psfWidth dd" and "gradsLeft dd' = gradsLeft dd" and "gradsRight dd' = gradsRight dd"
  shows "jointPSFEstimation ext dd' m l r = jointPSFEstimation ext dd m l r"
  unfolding jointPSFEstimation_def frequencyKernel_def assms ..

lemma kernelFromInverse_nonempty:
  assumes ok: "kernelFromInverse width kern0 = Inr p"
  shows "p \<noteq> []"
proof -
  let ?k = "thresholdToZero 0 kern0"
  let ?x = "int (ncols ?k)" and ?y = "int (nrows ?k)" and ?h = "cdiv (width - 1) 2"
  from ok obtain sw crop where
    sw: "swapSlices width ?k = Inr sw" and
    crop: "roi sw 0 0 width width = Inr crop" and
    p: "p = map (map (\<lambda>v. v / sumMat crop)) crop"
    by (auto simp: kernelFromInverse_def Let_def split: sum.splits)
  from sw obtain q1 q3 q2 q0 ks tmp where
    q1: "roi ?k (?x - ?h) 0 ?h (?y - ?h) = Inr q1" and
    q3: "roi ?k (?x - ?h) (?y - ?h) ?h ?h = Inr q3" and
    h1: "hconcat q3 q2 = Inr ks" and
    v: "vconcat ks tmp = Inr sw"
    by (auto simp: swapSlices_def Let_def split: sum.splits)
  from roi_Inr [OF q1] have hge: "0 \<le> ?h" by simp
  from hconcat_Inr [OF h1] roi_Inr [OF q3] have "?h \<noteq> 0" by auto
  with hge have "0 < ?h" by simp
  then have w: "0 < width" by (auto simp: cdiv_def split: if_splits)
  from vconcat_Inr [OF v] have swne: "sw \<noteq> []" by simp
  from roi_Inr [OF crop] w have "crop = map (\<lambda>r. take (nat width) (drop (nat 0) r)) (take (nat width) (drop (nat 0) sw))"
    by simp
  with swne w have "crop \<noteq> []" by (cases sw) simp_all
  with p show ?thesis by simp
qed

lemma jointPSFEstimation_nonempty: "jointPSFEstimation ext dd m l r = Inr p \<Longrightarrow> p \<noteq> []"
  unfolding jointPSFEstimation_def by (rule kernelFromInverse_nonempty)

text \<open>What \<open>estimateChild\<close> does, with the body of \<open>estimateChildPSF\<close> written out.\<close>

lemma estimateChild_unfold:
  "estimateChild ext nid cid dd =
     (let M = getMasks (regionTree dd) cid; P = psfValue dd nid
      in if sumMask (M LEFT) \<noteq> 0 \<and> sumMask (M RIGHT) \<noteq> 0 then
           (let cs = (case deconvAlgoPSFSelection dd of
                        FFT \<Rightarrow> [DeconvolveFFT (floatImages dd LEFT) P, DeconvolveFFT (floatImages dd RIGHT) P]
                      | IRLS \<Rightarrow> [DeconvolveIRLS (floatImages dd LEFT) P (M LEFT),
                                  DeconvolveIRLS (floatImages dd RIGHT) P (M RIGHT)])
            in case jointPSFEstimation ext dd M
                      (computeSalientEdgeMap ext (scaleMat 255 (runCall ext (cs ! 0))) (psfWidth dd) (M LEFT))
                      (computeSalientEdgeMap ext (scaleMat 255 (runCall ext (cs ! 1))) (psfWidth dd) (M RIGHT)) of
                 Inl e \<Rightarrow> Inl e
               | Inr p \<Rightarrow> Inr (copyToPsf cid p (dd\<lparr>calls := calls dd @ cs\<rparr>)))
         else Inr (assignPsf cid (psf (nodes (regionTree dd) nid)) dd))"
proof (cases "deconvAlgoPSFSelection dd")
  case FFT
  have j: "\<And>cl l r. jointPSFEstimation ext (dd\<lparr>calls := cl\<rparr>) (getMasks (regionTree dd) cid) l r
           = jointPSFEstimation ext dd (getMasks (regionTree dd) cid) l r"
    by (rule jointPSFEstimation_frame) simp_all
  show ?thesis
    by (simp add: estimateChild_def estimateChildPSF_def solve_def Let_def FFT j)
next
  case IRLS
  have j: "\<And>cl l r. jointPSFEstimation ext (dd\<lparr>calls := cl\<rparr>) (getMasks (regionTree dd) cid) l r
           = jointPSFEstimation ext dd (getMasks (regionTree dd) cid) l r"
    by (rule jointPSFEstimation_frame) simp_all
  show ?thesis
    by (simp add: estimateChild_def estimateChildPSF_def solve_def Let_def IRLS j)
qed

text \<open>
  The first estimate of a child whose header is empty: the members that the walk does
  not write stay, the blocks given out before stay, the other nodes keep their
  headers, and the child refers to the block of the parent or to a new block.
\<close>

lemma estimateChild_effect:
  assumes run: "estimateChild ext nid cid dd = Inr dd1" and none: "psf (nodes (regionTree dd) cid) = None"
  shows "floatImages dd1 = floatImages dd \<and> deconvAlgoPSFSelection dd1 = deconvAlgoPSFSelection dd
         \<and> psfWidth dd1 = psfWidth dd \<and> gradsLeft dd1 = gradsLeft dd \<and> gradsRight dd1 = gradsRight dd
         \<and> getMasks (regionTree dd1) = getMasks (regionTree dd)"
    and "nextBlock dd \<le> nextBlock dd1"
    and "\<And>a. a < nextBlock dd \<Longrightarrow> pixels dd1 a = pixels dd a"
    and "\<And>i. i \<noteq> cid \<Longrightarrow> psf (nodes (regionTree dd1) i) = psf (nodes (regionTree dd) i)"
    and "allocated dd nid \<Longrightarrow> allocated dd1 cid"
proof -
  let ?M = "getMasks (regionTree dd) cid" and ?P = "psfValue dd nid"
  let ?cs = "case deconvAlgoPSFSelection dd of
               FFT \<Rightarrow> [DeconvolveFFT (floatImages dd LEFT) ?P, DeconvolveFFT (floatImages dd RIGHT) ?P]
             | IRLS \<Rightarrow> [DeconvolveIRLS (floatImages dd LEFT) ?P (?M LEFT),
                         DeconvolveIRLS (floatImages dd RIGHT) ?P (?M RIGHT)]"
  let ?X = "dd\<lparr>calls := calls dd @ ?cs\<rparr>"
  have "dd1 = assignPsf cid (psf (nodes (regionTree dd) nid)) dd
      \<or> (\<exists>p. p \<noteq> [] \<and> dd1 = freshPsf cid p ?X)"
  proof (cases "sumMask (?M LEFT) \<noteq> 0 \<and> sumMask (?M RIGHT) \<noteq> 0")
    case False
    with run show ?thesis by (auto simp: estimateChild_unfold Let_def)
  next
    case True
    with run obtain p where
      j: "jointPSFEstimation ext dd ?M
            (computeSalientEdgeMap ext (scaleMat 255 (runCall ext (?cs ! 0))) (psfWidth dd) (?M LEFT))
            (computeSalientEdgeMap ext (scaleMat 255 (runCall ext (?cs ! 1))) (psfWidth dd) (?M RIGHT)) = Inr p"
      and d: "dd1 = copyToPsf cid p ?X"
      by (auto simp: estimateChild_unfold Let_def split: sum.splits)
    from jointPSFEstimation_nonempty [OF j] have ne: "p \<noteq> []" .
    have "copyToPsf cid p ?X = freshPsf cid p ?X"
      using ne none by (simp add: copyToPsf_def)
    with d ne show ?thesis by blast
  qed
  then show "floatImages dd1 = floatImages dd \<and> deconvAlgoPSFSelection dd1 = deconvAlgoPSFSelection dd
         \<and> psfWidth dd1 = psfWidth dd \<and> gradsLeft dd1 = gradsLeft dd \<and> gradsRight dd1 = gradsRight dd
         \<and> getMasks (regionTree dd1) = getMasks (regionTree dd)"
    and "nextBlock dd \<le> nextBlock dd1"
    and "\<And>a. a < nextBlock dd \<Longrightarrow> pixels dd1 a = pixels dd a"
    and "\<And>i. i \<noteq> cid \<Longrightarrow> psf (nodes (regionTree dd1) i) = psf (nodes (regionTree dd) i)"
    and "allocated dd nid \<Longrightarrow> allocated dd1 cid"
    by (auto simp: assignPsf_def freshPsf_def allocated_def)
qed

text \<open>The kernel and the calls of the child after \<open>estimateChild\<close>.\<close>

lemma estimateChild_result:
  assumes run: "estimateChild ext nid cid dd = Inr dd1"
  shows "\<not> (sumMask (getMasks (regionTree dd) cid LEFT) \<noteq> 0 \<and> sumMask (getMasks (regionTree dd) cid RIGHT) \<noteq> 0) \<Longrightarrow>
           psf (nodes (regionTree dd1) cid) = psf (nodes (regionTree dd) nid) \<and> pixels dd1 = pixels dd
           \<and> calls dd1 = calls dd"
    and "sumMask (getMasks (regionTree dd) cid LEFT) \<noteq> 0 \<and> sumMask (getMasks (regionTree dd) cid RIGHT) \<noteq> 0 \<Longrightarrow>
           deconvAlgoPSFSelection dd = FFT \<Longrightarrow>
           jointPSFEstimation ext dd (getMasks (regionTree dd) cid)
             (computeSalientEdgeMap ext (scaleMat 255 (deconvolveFFT ext (floatImages dd LEFT) (psfValue dd nid)))
                (psfWidth dd) (getMasks (regionTree dd) cid LEFT))
             (computeSalientEdgeMap ext (scaleMat 255 (deconvolveFFT ext (floatImages dd RIGHT) (psfValue dd nid)))
                (psfWidth dd) (getMasks (regionTree dd) cid RIGHT))
           = Inr (psfValue dd1 cid)
           \<and> calls dd1 = calls dd @ [DeconvolveFFT (floatImages dd LEFT) (psfValue dd nid),
                                      DeconvolveFFT (floatImages dd RIGHT) (psfValue dd nid)]"
    and "sumMask (getMasks (regionTree dd) cid LEFT) \<noteq> 0 \<and> sumMask (getMasks (regionTree dd) cid RIGHT) \<noteq> 0 \<Longrightarrow>
           deconvAlgoPSFSelection dd = IRLS \<Longrightarrow>
           jointPSFEstimation ext dd (getMasks (regionTree dd) cid)
             (computeSalientEdgeMap ext
                (scaleMat 255 (deconvolveIRLS ext (floatImages dd LEFT) (psfValue dd nid) (getMasks (regionTree dd) cid LEFT)))
                (psfWidth dd) (getMasks (regionTree dd) cid LEFT))
             (computeSalientEdgeMap ext
                (scaleMat 255 (deconvolveIRLS ext (floatImages dd RIGHT) (psfValue dd nid) (getMasks (regionTree dd) cid RIGHT)))
                (psfWidth dd) (getMasks (regionTree dd) cid RIGHT))
           = Inr (psfValue dd1 cid)
           \<and> calls dd1 = calls dd @ [DeconvolveIRLS (floatImages dd LEFT) (psfValue dd nid) (getMasks (regionTree dd) cid LEFT),
                                      DeconvolveIRLS (floatImages dd RIGHT) (psfValue dd nid) (getMasks (regionTree dd) cid RIGHT)]"
proof -
  have c: "\<And>p X. calls (copyToPsf cid p X) = calls X"
    by (simp add: copyToPsf_def freshPsf_def assignPsf_def split: option.split)
  show "\<not> (sumMask (getMasks (regionTree dd) cid LEFT) \<noteq> 0 \<and> sumMask (getMasks (regionTree dd) cid RIGHT) \<noteq> 0) \<Longrightarrow>
           psf (nodes (regionTree dd1) cid) = psf (nodes (regionTree dd) nid) \<and> pixels dd1 = pixels dd
           \<and> calls dd1 = calls dd"
    using run by (auto simp: estimateChild_unfold Let_def assignPsf_def)
  show "sumMask (getMasks (regionTree dd) cid LEFT) \<noteq> 0 \<and> sumMask (getMasks (regionTree dd) cid RIGHT) \<noteq> 0 \<Longrightarrow>
           deconvAlgoPSFSelection dd = FFT \<Longrightarrow>
           jointPSFEstimation ext dd (getMasks (regionTree dd) cid)
             (computeSalientEdgeMap ext (scaleMat 255 (deconvolveFFT ext (floatImages dd LEFT) (psfValue dd nid)))
                (psfWidth dd) (getMasks (regionTree dd) cid LEFT))
             (computeSalientEdgeMap ext (scaleMat 255 (deconvolveFFT ext (floatImages dd RIGHT) (psfValue dd nid)))
                (psfWidth dd) (getMasks (regionTree dd) cid RIGHT))
           = Inr (psfValue dd1 cid)
           \<and> calls dd1 = calls dd @ [DeconvolveFFT (floatImages dd LEFT) (psfValue dd nid),
                                      DeconvolveFFT (floatImages dd RIGHT) (psfValue dd nid)]"
    using run by (auto simp: estimateChild_unfold Let_def psfValue_copyToPsf c split: sum.splits)
  show "sumMask (getMasks (regionTree dd) cid LEFT) \<noteq> 0 \<and> sumMask (getMasks (regionTree dd) cid RIGHT) \<noteq> 0 \<Longrightarrow>
           deconvAlgoPSFSelection dd = IRLS \<Longrightarrow>
           jointPSFEstimation ext dd (getMasks (regionTree dd) cid)
             (computeSalientEdgeMap ext
                (scaleMat 255 (deconvolveIRLS ext (floatImages dd LEFT) (psfValue dd nid) (getMasks (regionTree dd) cid LEFT)))
                (psfWidth dd) (getMasks (regionTree dd) cid LEFT))
             (computeSalientEdgeMap ext
                (scaleMat 255 (deconvolveIRLS ext (floatImages dd RIGHT) (psfValue dd nid) (getMasks (regionTree dd) cid RIGHT)))
                (psfWidth dd) (getMasks (regionTree dd) cid RIGHT))
           = Inr (psfValue dd1 cid)
           \<and> calls dd1 = calls dd @ [DeconvolveIRLS (floatImages dd LEFT) (psfValue dd nid) (getMasks (regionTree dd) cid LEFT),
                                      DeconvolveIRLS (floatImages dd RIGHT) (psfValue dd nid) (getMasks (regionTree dd) cid RIGHT)]"
    using run by (auto simp: estimateChild_unfold Let_def psfValue_copyToPsf c split: sum.splits)
qed

lemma psfValue_stable:
  "psf (nodes (regionTree dd1) i) = psf (nodes (regionTree dd) i) \<Longrightarrow>
   (\<And>a. psf (nodes (regionTree dd) i) = Some a \<Longrightarrow> pixels dd1 a = pixels dd a) \<Longrightarrow>
   psfValue dd1 i = psfValue dd i"
  by (simp add: psfValue_def deref_def split: option.split)

lemma psf_after_entropy_push:
  "psf (nodes (regionTree (pushChildren c1 c2 (storeEntropy a (storeEntropy b dd)))) c) = psf (nodes (regionTree dd) c)"
  "pixels (pushChildren c1 c2 (storeEntropy a (storeEntropy b dd))) = pixels dd"
  "calls (pushChildren c1 c2 (storeEntropy a (storeEntropy b dd))) = calls dd"
  by (simp_all add: pushChildren_def storeEntropy_def setEntropy_def)

text \<open>
  C3. \<^verbatim>\<open>midLevelKernelEstimationNode\<close> has processed an internal node \<open>nid\<close> with two
  distinct children other than itself, in the first pass: the children have no kernel
  yet, and the block of \<open>nid\<close> was given out before. Then for each child: if the mask
  of the child is empty in the left or in the right view, the header of the child is
  the header of \<open>nid\<close>, so that its kernel is the kernel that \<open>nid\<close> had, and no
  solver was called for this child. Otherwise the kernel of the child is what
  \<^verbatim>\<open>jointPSFEstimation\<close> returns for the masks of the child and the salient edge
  maps of the two views, each view deconvolved by the solver of the setting with the
  kernel of \<open>nid\<close> as the kernel and scaled by 255. The solver calls that the function
  made are these two calls, left view first, for the first child and then for the
  second, each only if both masks of the child are non-empty.
\<close>

theorem estimationNode_child_inherits_or_estimates:
  assumes run: "estimationNode ext nid dd = Inr dd'"
    and kids: "children (nodes (regionTree dd) nid) = (cid1, cid2)"
    and internal: "cid1 \<noteq> -1 \<and> cid2 \<noteq> -1"
    and distinct: "cid1 \<noteq> cid2 \<and> cid1 \<noteq> nid \<and> cid2 \<noteq> nid"
    and fresh: "psf (nodes (regionTree dd) cid1) = None \<and> psf (nodes (regionTree dd) cid2) = None"
    and heap: "allocated dd nid"
    and child: "cid = cid1 \<or> cid = cid2"
  shows "(\<not> (sumMask (getMasks (regionTree dd) cid LEFT) \<noteq> 0 \<and> sumMask (getMasks (regionTree dd) cid RIGHT) \<noteq> 0) \<longrightarrow>
            psf (nodes (regionTree dd') cid) = psf (nodes (regionTree dd) nid)
            \<and> psfValue dd' cid = psfValue dd nid)
         \<and> (sumMask (getMasks (regionTree dd) cid LEFT) \<noteq> 0 \<and> sumMask (getMasks (regionTree dd) cid RIGHT) \<noteq> 0
            \<and> deconvAlgoPSFSelection dd = FFT \<longrightarrow>
            jointPSFEstimation ext dd (getMasks (regionTree dd) cid)
              (computeSalientEdgeMap ext (scaleMat 255 (deconvolveFFT ext (floatImages dd LEFT) (psfValue dd nid)))
                 (psfWidth dd) (getMasks (regionTree dd) cid LEFT))
              (computeSalientEdgeMap ext (scaleMat 255 (deconvolveFFT ext (floatImages dd RIGHT) (psfValue dd nid)))
                 (psfWidth dd) (getMasks (regionTree dd) cid RIGHT))
            = Inr (psfValue dd' cid))
         \<and> (sumMask (getMasks (regionTree dd) cid LEFT) \<noteq> 0 \<and> sumMask (getMasks (regionTree dd) cid RIGHT) \<noteq> 0
            \<and> deconvAlgoPSFSelection dd = IRLS \<longrightarrow>
            jointPSFEstimation ext dd (getMasks (regionTree dd) cid)
              (computeSalientEdgeMap ext
                 (scaleMat 255 (deconvolveIRLS ext (floatImages dd LEFT) (psfValue dd nid) (getMasks (regionTree dd) cid LEFT)))
                 (psfWidth dd) (getMasks (regionTree dd) cid LEFT))
              (computeSalientEdgeMap ext
                 (scaleMat 255 (deconvolveIRLS ext (floatImages dd RIGHT) (psfValue dd nid) (getMasks (regionTree dd) cid RIGHT)))
                 (psfWidth dd) (getMasks (regionTree dd) cid RIGHT))
            = Inr (psfValue dd' cid))
         \<and> calls dd' = calls dd
              @ (if sumMask (getMasks (regionTree dd) cid1 LEFT) \<noteq> 0 \<and> sumMask (getMasks (regionTree dd) cid1 RIGHT) \<noteq> 0
                 then (case deconvAlgoPSFSelection dd of
                         FFT \<Rightarrow> [DeconvolveFFT (floatImages dd LEFT) (psfValue dd nid),
                                  DeconvolveFFT (floatImages dd RIGHT) (psfValue dd nid)]
                       | IRLS \<Rightarrow> [DeconvolveIRLS (floatImages dd LEFT) (psfValue dd nid) (getMasks (regionTree dd) cid1 LEFT),
                                   DeconvolveIRLS (floatImages dd RIGHT) (psfValue dd nid) (getMasks (regionTree dd) cid1 RIGHT)])
                 else [])
              @ (if sumMask (getMasks (regionTree dd) cid2 LEFT) \<noteq> 0 \<and> sumMask (getMasks (regionTree dd) cid2 RIGHT) \<noteq> 0
                 then (case deconvAlgoPSFSelection dd of
                         FFT \<Rightarrow> [DeconvolveFFT (floatImages dd LEFT) (psfValue dd nid),
                                  DeconvolveFFT (floatImages dd RIGHT) (psfValue dd nid)]
                       | IRLS \<Rightarrow> [DeconvolveIRLS (floatImages dd LEFT) (psfValue dd nid) (getMasks (regionTree dd) cid2 LEFT),
                                   DeconvolveIRLS (floatImages dd RIGHT) (psfValue dd nid) (getMasks (regionTree dd) cid2 RIGHT)])
                 else [])"
proof -
  let ?M = "getMasks (regionTree dd)"
  let ?P = "psfValue dd nid"
  let ?full = "\<lambda>c. sumMask (?M c LEFT) \<noteq> 0 \<and> sumMask (?M c RIGHT) \<noteq> 0"
  let ?J = "\<lambda>c l r. jointPSFEstimation ext dd (?M c)
                      (computeSalientEdgeMap ext (scaleMat 255 l) (psfWidth dd) (?M c LEFT))
                      (computeSalientEdgeMap ext (scaleMat 255 r) (psfWidth dd) (?M c RIGHT))"
  let ?fft = "\<lambda>c. [DeconvolveFFT (floatImages dd LEFT) ?P, DeconvolveFFT (floatImages dd RIGHT) ?P]"
  let ?irls = "\<lambda>c. [DeconvolveIRLS (floatImages dd LEFT) ?P (?M c LEFT), DeconvolveIRLS (floatImages dd RIGHT) ?P (?M c RIGHT)]"
  from run kids internal obtain dd1 dd2 where
    e1: "estimateChild ext nid cid1 dd = Inr dd1" and
    e2: "estimateChild ext nid cid2 dd1 = Inr dd2" and
    fin: "dd' = pushChildren cid1 cid2 (storeEntropy cid2 (storeEntropy cid1 dd2))"
    by (auto simp: estimationNode_def Let_def split: sum.splits)
  from fresh have n1: "psf (nodes (regionTree dd) cid1) = None" and n2: "psf (nodes (regionTree dd) cid2) = None"
    by simp_all
  note a = estimateChild_effect [OF e1 n1]
  from a(4) [of cid2] distinct n2 have n2': "psf (nodes (regionTree dd1) cid2) = None" by simp
  note b = estimateChild_effect [OF e2 n2']
  note r1 = estimateChild_result [OF e1] and r2 = estimateChild_result [OF e2]
  have same1: "floatImages dd1 = floatImages dd" "deconvAlgoPSFSelection dd1 = deconvAlgoPSFSelection dd"
    "psfWidth dd1 = psfWidth dd" "getMasks (regionTree dd1) = ?M"
    using a(1) by simp_all
  have j1: "\<And>m l r. jointPSFEstimation ext dd1 m l r = jointPSFEstimation ext dd m l r"
    using a(1) by (intro jointPSFEstimation_frame) simp_all
  have hpar: "psf (nodes (regionTree dd1) nid) = psf (nodes (regionTree dd) nid)"
    using a(4) [of nid] distinct by simp
  have par1: "psfValue dd1 nid = ?P"
    using hpar a(3) heap by (intro psfValue_stable) (auto simp: allocated_def)
  have al1: "allocated dd1 cid1" using a(5) heap by simp
  have keep1: "psfValue dd2 cid1 = psfValue dd1 cid1"
    using b(4) [of cid1] b(3) al1 distinct by (intro psfValue_stable) (auto simp: allocated_def)
  have h1: "psf (nodes (regionTree dd2) cid1) = psf (nodes (regionTree dd1) cid1)"
    using b(4) [of cid1] distinct by simp
  have v': "\<And>c. psfValue dd' c = psfValue dd2 c"
    unfolding fin by (rule psfValue_stable) (simp_all add: psf_after_entropy_push)
  have h': "\<And>c. psf (nodes (regionTree dd') c) = psf (nodes (regionTree dd2) c)"
    unfolding fin by (simp add: psf_after_entropy_push)
  have c': "calls dd' = calls dd2" unfolding fin by (simp add: psf_after_entropy_push)
  have inh1: "\<not> ?full cid1 \<Longrightarrow> psf (nodes (regionTree dd') cid1) = psf (nodes (regionTree dd) nid) \<and> psfValue dd' cid1 = ?P"
  proof -
    assume ne: "\<not> ?full cid1"
    from r1(1) [OF ne] have hd: "psf (nodes (regionTree dd1) cid1) = psf (nodes (regionTree dd) nid)"
      and px: "pixels dd1 = pixels dd" by simp_all
    have "psfValue dd1 cid1 = ?P" by (simp add: psfValue_def hd deref_cong [OF px])
    with hd h1 h' v' keep1 show ?thesis by simp
  qed
  have inh2: "\<not> ?full cid2 \<Longrightarrow> psf (nodes (regionTree dd') cid2) = psf (nodes (regionTree dd) nid) \<and> psfValue dd' cid2 = ?P"
  proof -
    assume ne: "\<not> ?full cid2"
    then have ne': "\<not> (sumMask (getMasks (regionTree dd1) cid2 LEFT) \<noteq> 0 \<and> sumMask (getMasks (regionTree dd1) cid2 RIGHT) \<noteq> 0)"
      by (simp add: same1)
    from r2(1) [OF ne'] have hd: "psf (nodes (regionTree dd2) cid2) = psf (nodes (regionTree dd1) nid)"
      and px: "pixels dd2 = pixels dd1" by simp_all
    have "psfValue dd2 cid2 = psfValue dd1 nid" by (simp add: psfValue_def hd deref_cong [OF px])
    with hd hpar par1 h' v' show ?thesis by simp
  qed
  have fft1: "?full cid1 \<Longrightarrow> deconvAlgoPSFSelection dd = FFT \<Longrightarrow>
      ?J cid1 (deconvolveFFT ext (floatImages dd LEFT) ?P) (deconvolveFFT ext (floatImages dd RIGHT) ?P) = Inr (psfValue dd' cid1)
      \<and> calls dd1 = calls dd @ ?fft cid1"
    using r1(2) keep1 v' by simp
  have irls1: "?full cid1 \<Longrightarrow> deconvAlgoPSFSelection dd = IRLS \<Longrightarrow>
      ?J cid1 (deconvolveIRLS ext (floatImages dd LEFT) ?P (?M cid1 LEFT))
              (deconvolveIRLS ext (floatImages dd RIGHT) ?P (?M cid1 RIGHT)) = Inr (psfValue dd' cid1)
      \<and> calls dd1 = calls dd @ ?irls cid1"
    using r1(3) keep1 v' by simp
  have fft2: "?full cid2 \<Longrightarrow> deconvAlgoPSFSelection dd = FFT \<Longrightarrow>
      ?J cid2 (deconvolveFFT ext (floatImages dd LEFT) ?P) (deconvolveFFT ext (floatImages dd RIGHT) ?P) = Inr (psfValue dd' cid2)
      \<and> calls dd2 = calls dd1 @ ?fft cid2"
    using r2(2) v' by (simp add: same1 j1 par1)
  have irls2: "?full cid2 \<Longrightarrow> deconvAlgoPSFSelection dd = IRLS \<Longrightarrow>
      ?J cid2 (deconvolveIRLS ext (floatImages dd LEFT) ?P (?M cid2 LEFT))
              (deconvolveIRLS ext (floatImages dd RIGHT) ?P (?M cid2 RIGHT)) = Inr (psfValue dd' cid2)
      \<and> calls dd2 = calls dd1 @ ?irls cid2"
    using r2(3) v' by (simp add: same1 j1 par1)
  have log1: "calls dd1 = calls dd @ (if ?full cid1 then (case deconvAlgoPSFSelection dd of FFT \<Rightarrow> ?fft cid1 | IRLS \<Rightarrow> ?irls cid1) else [])"
  proof (cases "?full cid1")
    case False
    with r1(1) show ?thesis by auto
  next
    case True
    with fft1 irls1 show ?thesis by (cases "deconvAlgoPSFSelection dd") simp_all
  qed
  have log2: "calls dd2 = calls dd1 @ (if ?full cid2 then (case deconvAlgoPSFSelection dd of FFT \<Rightarrow> ?fft cid2 | IRLS \<Rightarrow> ?irls cid2) else [])"
  proof (cases "?full cid2")
    case False
    then have "\<not> (sumMask (getMasks (regionTree dd1) cid2 LEFT) \<noteq> 0 \<and> sumMask (getMasks (regionTree dd1) cid2 RIGHT) \<noteq> 0)"
      by (simp add: same1)
    from r2(1) [OF this] False show ?thesis by auto
  next
    case True
    with fft2 irls2 show ?thesis by (cases "deconvAlgoPSFSelection dd") simp_all
  qed
  have log: "calls dd' = calls dd
      @ (if ?full cid1 then (case deconvAlgoPSFSelection dd of FFT \<Rightarrow> ?fft cid1 | IRLS \<Rightarrow> ?irls cid1) else [])
      @ (if ?full cid2 then (case deconvAlgoPSFSelection dd of FFT \<Rightarrow> ?fft cid2 | IRLS \<Rightarrow> ?irls cid2) else [])"
    using c' log1 log2 by simp
  from child show ?thesis
  proof
    assume "cid = cid1"
    with inh1 fft1 irls1 log show ?thesis by blast
  next
    assume "cid = cid2"
    with inh2 fft2 irls2 log show ?thesis by blast
  qed
qed

lemma spectrum_frequencyKernel:
  "frequencyKernel spectrumExt (cornerDeblur a) (\<lambda>v. [[1]]) ([[s]], [[s]]) ([[s]], [[s]])
   = [[complex_of_real (4 * s / (4 * s * s + 1))]]"
  apply (simp add: frequencyKernel_def kernelBin_def spectrumExt_def smallExt_def cornerDeblur_def smallDeblur_def
      copyToMasked_def unitImpulse_def nrows_def ncols_def Let_def)
  apply (simp add: complex_eq_iff algebra_simps)
  done

lemma spectrum_estimate:
  "jointPSFEstimation spectrumExt (cornerDeblur a) (\<lambda>v. [[1]]) ([[1 / 2]], [[1 / 2]]) ([[1 / 2]], [[1 / 2]])
   = Inr [[1 / 9, 1 / 9, 0], [1 / 9, 4 / 9, 1 / 9], [0, 1 / 9, 0]]"
proof -
  have "idft spectrumExt [[complex_of_real (4 * (1 / 2) / (4 * (1 / 2) * (1 / 2) + 1))]] = cornerKernel"
    by (simp add: spectrumExt_def cornerKernel_def)
  moreover have "psfWidth (cornerDeblur a) = 3" by (simp add: cornerDeblur_def)
  ultimately show ?thesis
    unfolding jointPSFEstimation_def spectrum_frequencyKernel by (simp add: cornerKernel_result)
qed

lemma spectrum_run:
  "estimationNode spectrumExt 2 (cornerDeblur FFT)
   = Inr (pushChildren 0 1 (storeEntropy 1 (storeEntropy 0
       (assignPsf 1 (Some 2)
          (copyToPsf 0 [[1 / 9, 1 / 9, 0], [1 / 9, 4 / 9, 1 / 9], [0, 1 / 9, 0]]
             ((cornerDeblur FFT)\<lparr>calls := [DeconvolveFFT [[1 / 2]] [[1]], DeconvolveFFT [[1 / 2]] [[1]]]\<rparr>))))))"
proof -
  let ?dd = "cornerDeblur FFT"
  let ?K = "[[1 / 9, 1 / 9, 0], [1 / 9, 4 / 9, 1 / 9], [0, 1 / 9, 0 :: real]]"
  let ?dd1 = "copyToPsf 0 ?K (?dd\<lparr>calls := [DeconvolveFFT [[1 / 2]] [[1]], DeconvolveFFT [[1 / 2]] [[1]]]\<rparr>)"
  have m0: "getMasks (regionTree ?dd) 0 = (\<lambda>v. [[1]])"
    by (simp add: cornerDeblur_def smallDeblur_def initialTree_def smallTree_def)
  have f: "psfValue ?dd 2 = [[1]]" "floatImages ?dd = (\<lambda>v. [[1 / 2]])" "deconvAlgoPSFSelection ?dd = FFT"
    "psfWidth ?dd = 3" "calls ?dd = []" "children (nodes (regionTree ?dd) 2) = (0, 1)"
    by (simp_all add: cornerDeblur_def smallDeblur_def initialTree_def smallTree_def psfValue_def deref_def smallPixels_def)
  have g: "\<And>m w k. computeSalientEdgeMap spectrumExt m w k = (m, m)"
    "\<And>src k. deconvolveFFT spectrumExt src k = scaleMat (hd (hd k) / 255) src"
    by (simp_all add: spectrumExt_def smallExt_def)
  have s: "scaleMat 255 (scaleMat (1 / 255) [[1 / 2]]) = [[1 / 2 :: real]]"
    by (simp add: scaleMat_def)
  have e1: "estimateChild spectrumExt 2 0 ?dd = Inr ?dd1"
    by (simp add: estimateChild_unfold m0 Let_def sumMask_def f g s spectrum_estimate [unfolded One_nat_def])
  have m1: "sumMask (getMasks (regionTree ?dd1) 1 RIGHT) = 0" "psf (nodes (regionTree ?dd1) 2) = Some 2"
    by (simp_all add: copyToPsf_def freshPsf_def assignPsf_def sumMask_def
        cornerDeblur_def smallDeblur_def initialTree_def smallTree_def)
  have e2: "estimateChild spectrumExt 2 1 ?dd1 = Inr (assignPsf 1 (Some 2) ?dd1)"
    by (simp add: estimateChild_unfold Let_def m1)
  show ?thesis
    by (simp add: estimationNode_def f Let_def e1 e2)
qed

theorem estimationNode_child_inherits_or_estimates_witness:
  "children (nodes (regionTree (cornerDeblur FFT)) 2) = (0, 1)
   \<and> psf (nodes (regionTree (cornerDeblur FFT)) 0) = None
   \<and> psf (nodes (regionTree (cornerDeblur FFT)) 1) = None
   \<and> psf (nodes (regionTree (cornerDeblur FFT)) 2) = Some 2
   \<and> nextBlock (cornerDeblur FFT) = 3
   \<and> psfValue (cornerDeblur FFT) 2 = [[1]]
   \<and> sumMask (getMasks (regionTree (cornerDeblur FFT)) 1 RIGHT) = 0
   \<and> sumMask (getMasks (regionTree (cornerDeblur FFT)) 0 LEFT) = 1
   \<and> sumMask (getMasks (regionTree (cornerDeblur FFT)) 0 RIGHT) = 1
   \<and> (case estimationNode spectrumExt 2 (cornerDeblur FFT) of
         Inl e \<Rightarrow> False
       | Inr dd' \<Rightarrow>
           psf (nodes (regionTree dd') 1) = Some 2
           \<and> psfValue dd' 1 = [[1]]
           \<and> Inr (psfValue dd' 0)
               = jointPSFEstimation spectrumExt (cornerDeblur FFT) (\<lambda>v. [[1]])
                   ([[255 * ((1 / 2) * (1 / 255))]], [[255 * ((1 / 2) * (1 / 255))]])
                   ([[255 * ((1 / 2) * (1 / 255))]], [[255 * ((1 / 2) * (1 / 255))]])
           \<and> psfValue dd' 0 = [[1 / 9, 1 / 9, 0], [1 / 9, 4 / 9, 1 / 9], [0, 1 / 9, 0]]
           \<and> calls dd' = [DeconvolveFFT [[1 / 2]] [[1]], DeconvolveFFT [[1 / 2]] [[1]]])"
proof -
  let ?dd = "cornerDeblur FFT"
  obtain dd' where run: "estimationNode spectrumExt 2 ?dd = Inr dd'" using spectrum_run by blast
  have kids: "children (nodes (regionTree ?dd) 2) = (0, 1)"
    and n: "psf (nodes (regionTree ?dd) 0) = None \<and> psf (nodes (regionTree ?dd) 1) = None"
    and p2: "psf (nodes (regionTree ?dd) 2) = Some 2" and nb: "nextBlock ?dd = 3"
    and par: "psfValue ?dd 2 = [[1]]"
    and m1: "sumMask (getMasks (regionTree ?dd) 1 RIGHT) = 0"
    and m0: "sumMask (getMasks (regionTree ?dd) 0 LEFT) = 1" "sumMask (getMasks (regionTree ?dd) 0 RIGHT) = 1"
    and mk: "getMasks (regionTree ?dd) 0 = (\<lambda>v. [[1]])"
    and fl: "floatImages ?dd = (\<lambda>v. [[1 / 2]])" and alg: "deconvAlgoPSFSelection ?dd = FFT"
    and w: "psfWidth ?dd = 3" and c0: "calls ?dd = []"
    by (simp_all add: cornerDeblur_def smallDeblur_def initialTree_def smallTree_def sumMask_def
        psfValue_def deref_def smallPixels_def)
  have al: "allocated ?dd 2" by (simp add: allocated_def p2 nb)
  have i: "(0::int) \<noteq> -1 \<and> (1::int) \<noteq> -1" and d: "(0::int) \<noteq> 1 \<and> (0::int) \<noteq> 2 \<and> (1::int) \<noteq> 2"
    by simp_all
  have g: "\<And>m w k. computeSalientEdgeMap spectrumExt m w k = (m, m)"
    "\<And>src k. deconvolveFFT spectrumExt src k = scaleMat (hd (hd k) / 255) src"
    by (simp_all add: spectrumExt_def smallExt_def)
  note t = estimationNode_child_inherits_or_estimates [OF run kids i d n al]
  from t [of 1] m1 p2 par
  have r1: "psf (nodes (regionTree dd') 1) = Some 2 \<and> psfValue dd' 1 = [[1]]" by simp
  from t [of 0] m0 alg
  have r0: "Inr (psfValue dd' 0)
               = jointPSFEstimation spectrumExt ?dd (\<lambda>v. [[1]])
                   ([[255 * ((1 / 2) * (1 / 255))]], [[255 * ((1 / 2) * (1 / 255))]])
                   ([[255 * ((1 / 2) * (1 / 255))]], [[255 * ((1 / 2) * (1 / 255))]])"
    by (simp add: mk fl par w g scaleMat_def)
  have v0: "psfValue dd' 0 = [[1 / 9, 1 / 9, 0], [1 / 9, 4 / 9, 1 / 9], [0, 1 / 9, 0]]"
    using r0 spectrum_estimate [of FFT] by simp
  from t [of 0] m0 m1 alg
  have rc: "calls dd' = [DeconvolveFFT [[1 / 2]] [[1]], DeconvolveFFT [[1 / 2]] [[1]]]"
    by (simp add: fl par c0)
  from kids n p2 nb par m1 m0 r1 r0 v0 rc show ?thesis by (simp add: run)
qed

subsection \<open>Fatal errors before the tree walk\<close>

lemma toplevelLoop_missing:
  "k < length ids \<Longrightarrow> imread (i + k) = None \<Longrightarrow>
   toplevelLoop imread i ids dd = Inl (RuntimeError ''Can not load kernel!'')"
proof (induction ids arbitrary: i k dd)
  case Nil
  then show ?case by simp
next
  case (Cons nid ids)
  show ?case
  proof (cases k)
    case 0
    with Cons.prems show ?thesis by simp
  next
    case (Suc k')
    with Cons.prems have "k' < length ids" and "imread ((i + 1) + k') = None" by simp_all
    from Cons.IH [OF this] show ?thesis by (simp split: option.splits)
  qed
qed

lemma toplevelLoop_present:
  "(\<forall>k < length ids. imread (i + k) \<noteq> None) \<Longrightarrow> \<exists>dd'. toplevelLoop imread i ids dd = Inr dd'"
proof (induction ids arbitrary: i dd)
  case Nil
  then show ?case by simp
next
  case (Cons nid ids)
  from Cons.prems have "imread i \<noteq> None" by force
  then obtain kern where k: "imread i = Some kern" by auto
  have "\<forall>k < length ids. imread ((i + 1) + k) \<noteq> None"
  proof (intro allI impI)
    fix k assume "k < length ids"
    then have "Suc k < length (nid # ids)" by simp
    with Cons.prems have "imread (i + Suc k) \<noteq> None" by blast
    then show "imread ((i + 1) + k) \<noteq> None" by simp
  qed
  from Cons.IH [OF this] show ?case by (simp add: k)
qed

text \<open>
  C9. \<^verbatim>\<open>disparityEstimation\<close> with an algorithm that is neither \<^verbatim>\<open>SGBM\<close> nor
  \<^verbatim>\<open>MATCH\<close> throws \<^verbatim>\<open>runtime_error("Invalid disparity algorithm")\<close>, and
  \<^verbatim>\<open>toplevelKernelEstimation\<close> throws \<^verbatim>\<open>runtime_error("Can not load kernel!")\<close> as
  soon as the kernel image of one top-level node is missing, whatever the other
  images are. The exception is the result of the function: nothing in it catches the
  error, tries again or puts another kernel or map in its place. With a supported
  algorithm, and with all kernel images present, the functions return.
\<close>

theorem unsupported_algorithm_and_missing_kernel_throw:
  "disparityEstimation dx dd input OtherAlgo maxDisparity = Inl (RuntimeError ''Invalid disparity algorithm'')
   \<and> (algorithm \<noteq> OtherAlgo \<longrightarrow> (\<exists>dd'. disparityEstimation dx dd input algorithm maxDisparity = Inr dd'))
   \<and> (k < length (topLevelNodeIds (regionTree dd)) \<and> imread k = None \<longrightarrow>
        toplevelKernelEstimation imread dd = Inl (RuntimeError ''Can not load kernel!''))
   \<and> ((\<forall>k < length (topLevelNodeIds (regionTree dd)). imread k \<noteq> None) \<longrightarrow>
        (\<exists>dd'. toplevelKernelEstimation imread dd = Inr dd'))"
proof (intro conjI impI)
  show "disparityEstimation dx dd input OtherAlgo maxDisparity = Inl (RuntimeError ''Invalid disparity algorithm'')"
    by (simp add: disparityEstimation_def Let_def)
  show "\<exists>dd'. disparityEstimation dx dd input algorithm maxDisparity = Inr dd'" if "algorithm \<noteq> OtherAlgo"
    using that by (cases algorithm) (simp_all add: disparityEstimation_def Let_def)
  show "toplevelKernelEstimation imread dd = Inl (RuntimeError ''Can not load kernel!'')"
    if "k < length (topLevelNodeIds (regionTree dd)) \<and> imread k = None"
    using that toplevelLoop_missing [of k "topLevelNodeIds (regionTree dd)" imread 0 dd]
    by (simp add: toplevelKernelEstimation_def)
  show "\<exists>dd'. toplevelKernelEstimation imread dd = Inr dd'"
    if "\<forall>k < length (topLevelNodeIds (regionTree dd)). imread k \<noteq> None"
    using that toplevelLoop_present [of "topLevelNodeIds (regionTree dd)" imread 0 dd]
    by (simp add: toplevelKernelEstimation_def)
qed

theorem unsupported_algorithm_and_missing_kernel_throw_witness:
  "0 < length (topLevelNodeIds (regionTree (smallDeblur FFT initialTree)))
   \<and> toplevelKernelEstimation (\<lambda>i. None) (smallDeblur FFT initialTree) = Inl (RuntimeError ''Can not load kernel!'')
   \<and> toplevelKernelEstimation (\<lambda>i. Some [[1, 3]]) (smallDeblur FFT initialTree)
       = Inr (copyToPsf 2 [[1 / 4, 3 / 4]] (smallDeblur FFT initialTree))"
proof -
  have l: "0 < length (topLevelNodeIds (regionTree (smallDeblur FFT initialTree)))"
    by (simp add: smallDeblur_def initialTree_def smallTree_def)
  from unsupported_algorithm_and_missing_kernel_throw [of _ "smallDeblur FFT initialTree" _ _ _ 0 "\<lambda>i. None"] l
  have a: "toplevelKernelEstimation (\<lambda>i. None) (smallDeblur FFT initialTree) = Inl (RuntimeError ''Can not load kernel!'')"
    by simp
  have b: "toplevelKernelEstimation (\<lambda>i. Some [[1, 3]]) (smallDeblur FFT initialTree)
       = Inr (copyToPsf 2 [[1 / 4, 3 / 4]] (smallDeblur FFT initialTree))"
    by (simp add: toplevelKernelEstimation_def smallDeblur_def initialTree_def smallTree_def sumMat_def)
  from l a b show ?thesis by blast
qed

subsection \<open>The tree walks: a node is pushed after its kernel is stored\<close>


















text \<open>
  The steps of a thread from a popped node back to the head of the loop are the body
  of the loop: in the first walk six steps for an internal node, in the second seven,
  and two for a leaf.
\<close>

lemma estimationNode_as_steps:
  assumes kids: "children (nodes (regionTree dd) nid) = (cid1, cid2)" and internal: "cid1 \<noteq> -1 \<and> cid2 \<noteq> -1"
    and body: "estimationNode ext nid dd = Inr dd'"
  shows "\<exists>es. run ext False [0, 0, 0, 0, 0, 0] \<lparr> shared = dd, workers = [Got nid], trace = t \<rparr>
         = \<lparr> shared = dd', workers = [AtLoop], trace = es @ t \<rparr>"
proof -
  from body kids internal obtain dd1 dd2 where
    e1: "estimateChild ext nid cid1 dd = Inr dd1" and
    e2: "estimateChild ext nid cid2 dd1 = Inr dd2" and
    fin: "dd' = pushChildren cid1 cid2 (storeEntropy cid2 (storeEntropy cid1 dd2))"
    by (auto simp: estimationNode_def Let_def split: sum.splits)
  show ?thesis
    using kids internal e1 e2 fin by (simp add: run_def step_def Let_def)
qed

lemma refinementNode_as_steps:
  assumes kids: "children (nodes (regionTree dd) nid) = (cid1, cid2)" and internal: "cid1 \<noteq> -1 \<and> cid2 \<noteq> -1"
    and body: "refinementNode ext nid dd = Some dd'"
  shows "\<exists>es. run ext True [0, 0, 0, 0, 0, 0, 0] \<lparr> shared = dd, workers = [Got nid], trace = t \<rparr>
         = \<lparr> shared = dd', workers = [AtLoop], trace = es @ t \<rparr>"
proof -
  from body kids internal obtain w0 dd1 w1 dd2 where
    s1: "psfSelection ext dd (map (deref dd) (candidateSelection dd [] cid1 cid2)) cid1 = Some (w0, dd1)" and
    s2: "psfSelection ext dd1 (map (deref dd1) (candidateSelection dd [] cid2 cid1)) cid2 = Some (w1, dd2)" and
    fin: "dd' = pushChildren cid1 cid2 (copyToPsf cid2 w1 (copyToPsf cid1 w0 dd2))"
    by (auto simp: refinementNode_def Let_def split: option.splits)
  show ?thesis
    using kids internal s1 s2 fin by (simp add: run_def step_def Let_def)
qed

lemma leaf_as_steps:
  assumes "fst (children (nodes (regionTree dd) nid)) = -1 \<or> snd (children (nodes (regionTree dd) nid)) = -1"
  shows "estimationNode ext nid dd = Inr (visitLeaf dd)"
    and "refinementNode ext nid dd = Some (visitLeaf dd)"
    and "run ext refine [0, 0] \<lparr> shared = dd, workers = [Got nid], trace = t \<rparr>
         = \<lparr> shared = visitLeaf dd, workers = [AtLoop], trace = t \<rparr>"
  using assms by (auto simp: estimationNode_def refinementNode_def run_def step_def Let_def)










subsection \<open>The second pass: a candidate read through a shared block\<close>

lemma deep_joint:
  "psfWidth dd = 3 \<Longrightarrow> jointPSFEstimation deepExt dd m l r = Inr centreKernel"
  by (simp add: jointPSFEstimation_def deepExt_def kernelFromInverse_def swapSlices_def roi_def hconcat_def vconcat_def
      thresholdToZero_def cdiv_def nrows_def ncols_def sumMat_def topKernel_def centreKernel_def Let_def)

lemma deep_energy:
  assumes "floatImages dd LEFT = [[1 / 2]]"
  shows "getMask (regionTree dd) nid LEFT = [[1]] \<Longrightarrow> candidateEnergy deepExt dd nid centreKernel = 1"
    and "getMask (regionTree dd) nid LEFT = [[1]] \<Longrightarrow> candidateEnergy deepExt dd nid topKernel = 0"
    and "getMask (regionTree dd) nid LEFT = [[0]] \<Longrightarrow> candidateEnergy deepExt dd nid centreKernel = 1"
    and "getMask (regionTree dd) nid LEFT = [[0]] \<Longrightarrow> candidateEnergy deepExt dd nid topKernel = 1"
  using assms
  by (cases "deconvAlgoPSFSelection dd";
      simp add: candidateEnergy_def candidateLatent_def psfSelectionCall_def deepExt_def smallExt_def
        gradientCorrelation_def scaleMat_def thresholdTrunc_def thresholdToZero_def
        copyToMasked_def maxLoc_def topKernel_def centreKernel_def Let_def)+

text \<open>
  C5 against the code. The first candidate of a child is the header of its kernel,
  and \<^verbatim>\<open>psfSelection\<close> reads through it what the block holds by then. In the tree
  of three leaves the first pass assigns to leaf 0, whose left mask is empty, the
  header of node 3 (line 735): after the first pass the kernel of leaf 0 is
  \<open>centreKernel\<close>, in the block of node 3. The second pass at node 4 selects
  \<open>topKernel\<close>, the kernel of node 4, for node 3 and copies it to the kernel of node 3
  (line 808): the block has the size of the winner, so the pixels are written into
  it, and the kernel of leaf 0 has changed with them. At node 3 the candidates of
  leaf 0 are then \<open>topKernel\<close> twice; its kernel of the first pass is not among
  them. On the candidates \<open>centreKernel\<close>, \<open>topKernel\<close> (the kernel of the first pass
  and the kernel of the parent, of equal energy in the region of leaf 0)
  \<^verbatim>\<open>psfSelection\<close> returns \<open>centreKernel\<close>; the code stores \<open>topKernel\<close> for leaf 0.
\<close>

theorem candidateSelection_reads_overwritten_kernel:
  "(case estimationNode deepExt 4 deepDeblur of Inl e \<Rightarrow> False | Inr dd1 \<Rightarrow>
     (case estimationNode deepExt 3 dd1 of Inl e \<Rightarrow> False | Inr dd2 \<Rightarrow>
        psfValue dd2 0 = centreKernel
        \<and> psf (nodes (regionTree dd2) 0) = psf (nodes (regionTree dd2) 3)
        \<and> psfValue dd2 4 = topKernel
        \<and> (case refinementNode deepExt 4 dd2 of None \<Rightarrow> False | Some dd3 \<Rightarrow>
             psfValue dd3 3 = topKernel
             \<and> map (deref dd3) (candidateSelection dd3 [] 0 1) = [topKernel, topKernel]
             \<and> map_option fst (psfSelection deepExt dd3 [centreKernel, topKernel] 0) = Some centreKernel
             \<and> (case refinementNode deepExt 3 dd3 of None \<Rightarrow> False | Some dd4 \<Rightarrow>
                  psfValue dd4 0 = topKernel))))
   \<and> centreKernel \<noteq> topKernel"
  by (simp add: estimationNode_def refinementNode_def estimateChild_unfold Let_def
      deep_joint [unfolded centreKernel_def] deep_energy [unfolded centreKernel_def topKernel_def]
      candidateSelection_def isReliablePSF_def psfSelection_def psfSelectionCall_def computeEntropy_def sumMask_def
      copyToPsf_def freshPsf_def assignPsf_def storeEntropy_def setEntropy_def pushChildren_def
      psfValue_def deref_def nrows_def ncols_def deepDeblur_def deepTree_def topKernel_def centreKernel_def)

end
